theory Spec2Isabelle
  imports Main "HOL-Library.Sublist" "HOL-Library.AList"
begin

section \<open>Python strings\<close>

text \<open>
  A Python \<open>str\<close> is modelled as a \<^typ>\<open>string\<close>: a list of characters, each one code
  point below 256. The functions of this section are the \<open>str\<close> methods the repository
  calls, written out on lists.
\<close>

text \<open>\<open>sub in s\<close> for two strings: \<open>sub\<close> occurs in \<open>s\<close> as a contiguous block.\<close>

fun py_contains :: "string \<Rightarrow> string \<Rightarrow> bool" where
  "py_contains sub [] = (sub = [])"
| "py_contains sub (c # cs) = (prefix sub (c # cs) \<or> py_contains sub cs)"

text \<open>
  \<open>s.replace(old, new)\<close>: every occurrence of \<open>old\<close>, found from the left and not
  overlapping, becomes \<open>new\<close>. For an empty \<open>old\<close> Python puts \<open>new\<close> before every
  character and at the end.
\<close>

function py_replace :: "string \<Rightarrow> string \<Rightarrow> string \<Rightarrow> string" where
  "py_replace old new s =
     (if old = [] then new @ concat (map (\<lambda>c. c # new) s)
      else if s = [] then []
      else if prefix old s then new @ py_replace old new (drop (length old) s)
      else hd s # py_replace old new (tl s))"
  by pat_completeness auto
termination
  by (relation "measure (\<lambda>(old, new, s). length s)") auto

declare py_replace.simps [simp del]

text \<open>
  The characters \<open>str.strip()\<close> removes, among the code points below 256: tab, line feed,
  vertical tab, form feed, carriage return, the four separators 0x1C to 0x1F, space,
  0x85 and 0xA0.
\<close>

definition py_isspace :: "char \<Rightarrow> bool" where
  "py_isspace c = (of_char c \<in> {9, 10, 11, 12, 13, 28, 29, 30, 31, 32, 133, 160 :: nat})"

definition py_strip :: "string \<Rightarrow> string" where
  "py_strip s = rev (dropWhile py_isspace (rev (dropWhile py_isspace s)))"

text \<open>\<open>sep.join(parts)\<close> for a list of strings.\<close>

fun py_join :: "string \<Rightarrow> string list \<Rightarrow> string" where
  "py_join sep [] = []"
| "py_join sep [p] = p"
| "py_join sep (p # q # ps) = p @ sep @ py_join sep (q # ps)"

section \<open>The course corpus partitioner: sanitising a department name\<close>

text \<open>
  \<open>clean_filename\<close> (Split_initial_Json.py): the string \<open>invalid_chars\<close>, the loop that
  replaces each of its characters by an underscore, the strip and the replacement of
  spaces, and the \<open>while\<close> loop that replaces double underscores until none is left.
\<close>

definition invalid_chars :: string where
  "invalid_chars = [CHR ''<'', CHR ''>'', CHR '':'', CHR 0x22, CHR ''/'', CHR 0x5C,
     CHR ''|'', CHR ''?'', CHR ''*'']"

fun replace_invalid :: "string \<Rightarrow> string \<Rightarrow> string" where
  "replace_invalid [] filename = filename"
| "replace_invalid (ch # chars) filename = replace_invalid chars (py_replace [ch] ''_'' filename)"

function collapse_underscores :: "string \<Rightarrow> string" where
  "collapse_underscores filename =
     (if py_contains ''__'' filename
      then collapse_underscores (py_replace ''__'' ''_'' filename)
      else filename)"
  by pat_completeness auto
termination
proof (relation "measure length")
  show "wf (measure (length :: string \<Rightarrow> nat))"
    by simp
next
  fix filename :: string
  assume occurs: "py_contains ''__'' filename"
  have nil: "py_replace ''__'' ''_'' [] = []"
    by (subst py_replace.simps) simp
  have hit: "\<And>r. py_replace ''__'' ''_'' (''__'' @ r) = ''_'' @ py_replace ''__'' ''_'' r"
    by (subst py_replace.simps) simp
  have miss: "\<And>c cs. \<not> prefix ''__'' (c # cs) \<Longrightarrow>
      py_replace ''__'' ''_'' (c # cs) = c # py_replace ''__'' ''_'' cs"
    by (subst py_replace.simps) (simp only: list.distinct list.sel if_False)
  have shorter: "length (py_replace ''__'' ''_'' s) \<le> length s" for s
  proof (induction s rule: length_induct)
    case (1 s)
    show ?case
    proof (cases s)
      case Nil
      then show ?thesis by (simp add: nil)
    next
      case (Cons c cs)
      show ?thesis
      proof (cases "prefix ''__'' s")
        case True
        then obtain r where s: "s = ''__'' @ r"
          by (auto simp: prefix_def)
        have "length (py_replace ''__'' ''_'' r) \<le> length r"
          using 1 s by simp
        then show ?thesis
          unfolding s hit by simp
      next
        case False
        then have np: "\<not> prefix ''__'' (c # cs)"
          unfolding Cons .
        have "length (py_replace ''__'' ''_'' cs) \<le> length cs"
          using 1 Cons by simp
        then show ?thesis
          unfolding Cons by (simp only: miss [OF np]) simp
      qed
    qed
  qed
  from occurs have "length (py_replace ''__'' ''_'' filename) < length filename"
  proof (induction filename)
    case Nil
    then show ?case by simp
  next
    case (Cons c cs)
    show ?case
    proof (cases "prefix ''__'' (c # cs)")
      case True
      then obtain r where s: "c # cs = ''__'' @ r"
        by (auto simp: prefix_def)
      have "length (py_replace ''__'' ''_'' r) \<le> length r"
        by (rule shorter)
      then show ?thesis
        unfolding s hit by simp
    next
      case False
      then have "py_contains ''__'' cs"
        using Cons.prems by (simp only: py_contains.simps) blast
      then have "length (py_replace ''__'' ''_'' cs) < length cs"
        by (rule Cons.IH)
      then show ?thesis
        by (simp only: miss [OF False]) simp
    qed
  qed
  then show "(py_replace ''__'' ''_'' filename, filename) \<in> measure length"
    by simp
qed

declare collapse_underscores.simps [simp del]

definition clean_filename :: "string \<Rightarrow> string" where
  "clean_filename filename =
     collapse_underscores
       (py_replace '' '' ''_'' (py_strip (replace_invalid invalid_chars filename)))"

section \<open>Python values read from JSON\<close>

text \<open>
  What \<open>json.loads\<close> returns: \<open>None\<close>, a \<open>bool\<close>, an \<open>int\<close>, a \<open>float\<close>, a \<open>str\<close>,
  a \<open>list\<close> or a \<open>dict\<close> with string keys, in insertion order. The program does no
  arithmetic on a float and only tests it for zero, so a float is kept as the double it
  is: \<open>Double m e\<close> stands for \<open>m * 2^e\<close>, beside the two infinities and not-a-number.
\<close>

datatype pyfloat = Double int int | PlusInfinity | MinusInfinity | NotANumber

datatype json =
    JNull
  | JBool bool
  | JInt int
  | JFloat pyfloat
  | JStr string
  | JArr "json list"
  | JObj "(string \<times> json) list"

text \<open>The exceptions the modelled code can raise to its caller.\<close>

datatype py_error = IndexError | TypeError | AttributeError

text \<open>\<open>bool(v)\<close>, the test behind \<open>if v:\<close> and \<open>if not v:\<close>.\<close>

fun py_truthy :: "json \<Rightarrow> bool" where
  "py_truthy JNull = False"
| "py_truthy (JBool b) = b"
| "py_truthy (JInt i) = (i \<noteq> 0)"
| "py_truthy (JFloat (Double m e)) = (m \<noteq> 0)"
| "py_truthy (JFloat PlusInfinity) = True"
| "py_truthy (JFloat MinusInfinity) = True"
| "py_truthy (JFloat NotANumber) = True"
| "py_truthy (JStr s) = (s \<noteq> [])"
| "py_truthy (JArr xs) = (xs \<noteq> [])"
| "py_truthy (JObj kvs) = (kvs \<noteq> [])"

text \<open>
  \<open>for x in v\<close>: a list gives its elements, a dict its keys, a string its characters as
  strings of length one; anything else is not iterable (\<open>TypeError\<close>).
\<close>

fun py_iter :: "json \<Rightarrow> py_error + json list" where
  "py_iter (JArr xs) = Inr xs"
| "py_iter (JObj kvs) = Inr (map (\<lambda>kv. JStr (fst kv)) kvs)"
| "py_iter (JStr s) = Inr (map (\<lambda>c. JStr [c]) s)"
| "py_iter JNull = Inl TypeError"
| "py_iter (JBool b) = Inl TypeError"
| "py_iter (JInt i) = Inl TypeError"
| "py_iter (JFloat f) = Inl TypeError"

text \<open>\<open>v.get(key, default)\<close>: only a dict has the method (\<open>AttributeError\<close> otherwise).\<close>

fun py_get :: "json \<Rightarrow> string \<Rightarrow> json \<Rightarrow> py_error + json" where
  "py_get (JObj kvs) key dflt =
     Inr (case map_of kvs key of None \<Rightarrow> dflt | Some v \<Rightarrow> v)"
| "py_get JNull key dflt = Inl AttributeError"
| "py_get (JBool b) key dflt = Inl AttributeError"
| "py_get (JInt i) key dflt = Inl AttributeError"
| "py_get (JFloat f) key dflt = Inl AttributeError"
| "py_get (JStr s) key dflt = Inl AttributeError"
| "py_get (JArr xs) key dflt = Inl AttributeError"

section \<open>The course corpus partitioner: grouping\<close>

text \<open>
  \<open>departments = defaultdict(list)\<close>: group name to the courses appended so far, in the
  order the names were first used. \<open>departments[name].append(course)\<close> creates the group
  when the name is new.
\<close>

type_synonym groups = "(string \<times> json list) list"

definition group_of :: "groups \<Rightarrow> string \<Rightarrow> json list" where
  "group_of departments name = (case map_of departments name of None \<Rightarrow> [] | Some cs \<Rightarrow> cs)"

definition append_to_group :: "string \<Rightarrow> json \<Rightarrow> groups \<Rightarrow> groups" where
  "append_to_group name course departments =
     AList.update name (group_of departments name @ [course]) departments"

text \<open>
  The inner loop of \<open>split_courses_by_department\<close>, \<open>for dept_name in department_names\<close>.
  \<open>clean_filename\<close> calls \<open>replace\<close> on its argument, which only a string has.
\<close>

fun add_to_departments :: "json list \<Rightarrow> json \<Rightarrow> groups \<Rightarrow> py_error + groups" where
  "add_to_departments [] course departments = Inr departments"
| "add_to_departments (JStr dept_name # rest) course departments =
     add_to_departments rest course
       (append_to_group (clean_filename dept_name) course departments)"
| "add_to_departments (other # rest) course departments = Inl AttributeError"

text \<open>The outer loop, \<open>for course in courses_data\<close>.\<close>

fun group_courses :: "json list \<Rightarrow> groups \<Rightarrow> py_error + groups" where
  "group_courses [] departments = Inr departments"
| "group_courses (course # rest) departments =
     (case py_get course ''department_name'' (JArr []) of
        Inl e \<Rightarrow> Inl e
      | Inr department_names \<Rightarrow>
          if \<not> py_truthy department_names
          then group_courses rest (append_to_group ''Others'' course departments)
          else (case py_iter department_names of
                  Inl e \<Rightarrow> Inl e
                | Inr names \<Rightarrow>
                    (case add_to_departments names course departments of
                       Inl e \<Rightarrow> Inl e
                     | Inr departments' \<Rightarrow> group_courses rest departments')))"

text \<open>
  \<open>split_courses_by_department\<close> from the loaded \<open>courses_data\<close> to the dictionary
  \<open>departments\<close> it then writes out, one file per group. Reading the input file and writing
  the group files are outside this model.
\<close>

definition split_courses_by_department :: "json \<Rightarrow> py_error + groups" where
  "split_courses_by_department courses_data =
     (case py_iter courses_data of
        Inl e \<Rightarrow> Inl e
      | Inr courses \<Rightarrow> group_courses courses [])"

text \<open>
  Two predicates for the proofs about the grouping: a course whose \<open>department_name\<close> is
  present and not empty, and the groups other than \<open>Others\<close> holding only such courses.
\<close>

definition lists_department :: "json \<Rightarrow> bool" where
  "lists_department course =
     (case py_get course ''department_name'' (JArr []) of
        Inl e \<Rightarrow> False
      | Inr department_names \<Rightarrow> py_truthy department_names)"

definition named_groups_listed :: "groups \<Rightarrow> bool" where
  "named_groups_listed departments =
     (\<forall>g c. g \<noteq> ''Others'' \<longrightarrow> c \<in> set (group_of departments g) \<longrightarrow> lists_department c)"

text \<open>
  A course the grouping loop accepts: a dict whose \<open>department_name\<close> is missing, empty
  or holds strings only.
\<close>

fun is_str :: "json \<Rightarrow> bool" where
  "is_str (JStr s) = True"
| "is_str other = False"

definition well_formed_course :: "json \<Rightarrow> bool" where
  "well_formed_course course =
     (case py_get course ''department_name'' (JArr []) of
        Inl e \<Rightarrow> False
      | Inr department_names \<Rightarrow>
          if py_truthy department_names
          then (case py_iter department_names of
                  Inl e \<Rightarrow> False
                | Inr names \<Rightarrow> list_all is_str names)
          else True)"

section \<open>Regular expressions\<close>

text \<open>
  The two patterns of the program, \<open>\[.*?\]\<close> and \<open>\{.*\}\<close>, are built from a literal
  character, a lazy \<open>.*?\<close> and a greedy \<open>.*\<close>; with \<open>re.DOTALL\<close> the dot matches every
  character. \<open>match_here\<close> is the backtracking matcher of \<open>re\<close> at one start position: it
  returns the text of the first match in the order the engine tries them (the lazy star
  tries to stop first, the greedy star tries to go on first). \<open>re_search\<close> is
  \<open>re.search(pattern, s).group()\<close>: the match at the leftmost start position that has one,
  \<open>None\<close> when no position has.
\<close>

datatype regex_item = Lit char | AnyLazy | AnyGreedy

fun match_here :: "regex_item list \<Rightarrow> string \<Rightarrow> string option" where
  "match_here [] s = Some []"
| "match_here (Lit c # p) [] = None"
| "match_here (Lit c # p) (x # s) =
     (if x = c then (case match_here p s of None \<Rightarrow> None | Some m \<Rightarrow> Some (x # m)) else None)"
| "match_here (AnyLazy # p) [] = match_here p []"
| "match_here (AnyLazy # p) (x # s) =
     (case match_here p (x # s) of
        Some m \<Rightarrow> Some m
      | None \<Rightarrow> (case match_here (AnyLazy # p) s of None \<Rightarrow> None | Some m \<Rightarrow> Some (x # m)))"
| "match_here (AnyGreedy # p) [] = match_here p []"
| "match_here (AnyGreedy # p) (x # s) =
     (case match_here (AnyGreedy # p) s of
        Some m \<Rightarrow> Some (x # m)
      | None \<Rightarrow> match_here p (x # s))"

fun re_search :: "regex_item list \<Rightarrow> string \<Rightarrow> string option" where
  "re_search p [] = match_here p []"
| "re_search p (x # s) =
     (case match_here p (x # s) of Some m \<Rightarrow> Some m | None \<Rightarrow> re_search p s)"

text \<open>\<open>r'\[.*?\]'\<close> (stages 1 and 2) and \<open>r'\{.*\}'\<close> (stage 3).\<close>

definition array_pattern :: "regex_item list" where
  "array_pattern = [Lit (CHR ''[''), AnyLazy, Lit (CHR '']'')]"

definition object_pattern :: "regex_item list" where
  "object_pattern = [Lit (CHR ''{''), AnyGreedy, Lit (CHR ''}'')]"

text \<open>
  The extraction step of the three stages, \<open>re.search\<close> followed by \<open>json.loads\<close> on the
  matched text. \<open>json.loads\<close> is the parameter \<open>loads\<close>: \<open>Inr v\<close> when it returns \<open>v\<close>,
  \<open>Inl msg\<close> when it raises, \<open>msg\<close> being the text of the exception.
\<close>

type_synonym loads = "string \<Rightarrow> string + json"

datatype extraction = NoMatch | Raised string | Parsed json

definition extract_json :: "regex_item list \<Rightarrow> loads \<Rightarrow> string \<Rightarrow> extraction" where
  "extract_json pattern loads response =
     (case re_search pattern response of
        None \<Rightarrow> NoMatch
      | Some json_match \<Rightarrow>
          (case loads json_match of Inl msg \<Rightarrow> Raised msg | Inr v \<Rightarrow> Parsed v))"


section \<open>The recommender and the completion service\<close>

text \<open>
  The object \<open>self\<close> of \<open>CourseRecommendationSystem\<close>: the model name, the department
  catalog \<open>available_departments\<close> (a dict, kept in insertion order), and what the methods
  do to the world through \<open>self.client\<close> and \<open>time.sleep\<close>: the number of
  \<open>messages.create\<close> calls made so far and the durations slept, oldest first. Logging is
  left out.
\<close>

record recommender =
  model :: string
  available_departments :: "(string \<times> int) list"
  api_calls :: nat
  slept :: "nat list"

text \<open>
  A prompt is kept as the values its f-string interpolates; the fixed text around them
  and the rendering of a value that is not a string are left out.
  \<^item> Stage 1: advisor description, transcript, \<open>skills_text\<close>, \<open>departments_text\<close>.
  \<^item> Stage 2: department, advisor description, transcript, \<open>skills_text\<close>, and for each
    listed course its \<open>title\<close> and \<open>short_description\<close>.
  \<^item> Stage 3: the student profile when one is given and not empty, and for each course
    its number, \<open>course_title\<close>, \<open>department\<close>, \<open>course_description\<close> and joined
    prerequisites.
\<close>

type_synonym roadmap_entry = "nat \<times> json \<times> json \<times> json \<times> string"

datatype prompt =
    DepartmentPrompt string string string string
  | CoursePrompt string string string string "(json \<times> json) list"
  | RoadmapPrompt "json option" "roadmap_entry list"

text \<open>
  One call of \<open>self.client.messages.create\<close> followed by \<open>message.content[0].text\<close>
  either yields the text or raises an \<open>Exception\<close>. The service is a function from the
  number of calls made before and the prompt to that outcome.
\<close>

datatype outcome = Failure | Reply string

type_synonym service = "nat \<Rightarrow> prompt \<Rightarrow> outcome"

text \<open>
  \<open>_call_claude_api\<close>: the loop \<open>for attempt in range(max_retries)\<close>, from the attempt
  \<open>attempt\<close> on. A reply returns its text. A failure sleeps \<open>2 ** attempt\<close> and goes on
  when another attempt is left, and returns \<open>None\<close> after the last one; a range that is
  empty from the start returns \<open>None\<close> with no call. \<open>time.sleep\<close> is taken to
  return normally.
\<close>

function call_claude_api_from ::
  "service \<Rightarrow> prompt \<Rightarrow> int \<Rightarrow> int \<Rightarrow> recommender \<Rightarrow> string option \<times> recommender" where
  "call_claude_api_from srv prompt max_retries attempt self =
     (if attempt < max_retries then
        (case srv (api_calls self) prompt of
           Reply txt \<Rightarrow> (Some txt, self\<lparr>api_calls := api_calls self + 1\<rparr>)
         | Failure \<Rightarrow>
             if attempt < max_retries - 1
             then call_claude_api_from srv prompt max_retries (attempt + 1)
                    (self\<lparr>api_calls := api_calls self + 1,
                          slept := slept self @ [2 ^ nat attempt]\<rparr>)
             else (None, self\<lparr>api_calls := api_calls self + 1\<rparr>))
      else (None, self))"
  by pat_completeness auto
termination
  by (relation "measure (\<lambda>(srv, prompt, max_retries, attempt, self). nat (max_retries - attempt))")
    auto

declare call_claude_api_from.simps [simp del]

definition call_claude_api ::
  "service \<Rightarrow> prompt \<Rightarrow> int \<Rightarrow> recommender \<Rightarrow> string option \<times> recommender" where
  "call_claude_api srv prompt max_retries self = call_claude_api_from srv prompt max_retries 0 self"

section \<open>Stage 1: department selection\<close>

text \<open>\<open>str(n)\<close> for an integer.\<close>

function str_nat :: "nat \<Rightarrow> string" where
  "str_nat n =
     (if n < 10 then [char_of (48 + n)] else str_nat (n div 10) @ [char_of (48 + n mod 10)])"
  by pat_completeness auto
termination
  by (relation "measure id") auto

declare str_nat.simps [simp del]

definition str_int :: "int \<Rightarrow> string" where
  "str_int i = (if i < 0 then CHR ''-'' # str_nat (nat (- i)) else str_nat (nat i))"

text \<open>
  \<open>skills_text\<close>: one line \<open>f"- {skill[0]}: {skill[1]}"\<close> for each skill, joined by line
  feeds. A skill with fewer than two entries raises \<open>IndexError\<close>; the statement stands
  before the \<open>try\<close> of its stage.
\<close>

fun skill_line :: "string list \<Rightarrow> py_error + string" where
  "skill_line (name # level # others) = Inr (''- '' @ name @ '': '' @ level)"
| "skill_line short = Inl IndexError"

fun skill_lines :: "string list list \<Rightarrow> py_error + string list" where
  "skill_lines [] = Inr []"
| "skill_lines (skill # rest) =
     (case skill_line skill of
        Inl e \<Rightarrow> Inl e
      | Inr l \<Rightarrow> (case skill_lines rest of Inl e \<Rightarrow> Inl e | Inr ls \<Rightarrow> Inr (l # ls)))"

definition skills_text :: "string list list \<Rightarrow> py_error + string" where
  "skills_text skill_levels =
     (case skill_lines skill_levels of Inl e \<Rightarrow> Inl e | Inr ls \<Rightarrow> Inr (py_join [CHR 0x0A] ls))"

definition departments_text :: "(string \<times> int) list \<Rightarrow> string" where
  "departments_text catalog =
     py_join [CHR 0x0A]
       (map (\<lambda>(dept, count). ''- '' @ dept @ '': '' @ str_int count @ '' courses'') catalog)"

text \<open>
  \<open>[dept for dept in departments if dept in self.available_departments]\<close>. The keys of
  the catalog are strings, so only a string can be among them; a list or a dict is not
  hashable and the membership test raises \<open>TypeError\<close>.
\<close>

fun valid_departments :: "(string \<times> int) list \<Rightarrow> json list \<Rightarrow> py_error + string list" where
  "valid_departments catalog [] = Inr []"
| "valid_departments catalog (JStr dept # rest) =
     (case valid_departments catalog rest of
        Inl e \<Rightarrow> Inl e
      | Inr valid \<Rightarrow> Inr (if dept \<in> set (map fst catalog) then dept # valid else valid))"
| "valid_departments catalog (JArr xs # rest) = Inl TypeError"
| "valid_departments catalog (JObj kvs # rest) = Inl TypeError"
| "valid_departments catalog (other # rest) = valid_departments catalog rest"

text \<open>
  The body of the \<open>try\<close> of \<open>select_departments\<close> after the call: an absent or empty
  response, a response with no match, and every exception raised on the way give the
  empty list.
\<close>

definition departments_from_response ::
  "loads \<Rightarrow> (string \<times> int) list \<Rightarrow> string option \<Rightarrow> string list" where
  "departments_from_response loads catalog response =
     (case response of
        None \<Rightarrow> []
      | Some text \<Rightarrow>
          if text = [] then []
          else (case extract_json array_pattern loads text of
                  NoMatch \<Rightarrow> []
                | Raised msg \<Rightarrow> []
                | Parsed departments \<Rightarrow>
                    (case py_iter departments of
                       Inl e \<Rightarrow> []
                     | Inr items \<Rightarrow>
                         (case valid_departments catalog items of
                            Inl e \<Rightarrow> []
                          | Inr valid \<Rightarrow> take 3 valid))))"

definition select_departments ::
  "service \<Rightarrow> loads \<Rightarrow> recommender \<Rightarrow> string \<Rightarrow> string \<Rightarrow> string list list
     \<Rightarrow> (py_error + string list) \<times> recommender" where
  "select_departments srv loads self advisor_description conversation_transcript skill_levels =
     (case skills_text skill_levels of
        Inl e \<Rightarrow> (Inl e, self)
      | Inr skills \<Rightarrow>
          (case call_claude_api srv
                  (DepartmentPrompt advisor_description conversation_transcript skills
                     (departments_text (available_departments self))) 3 self of
             (response, self') \<Rightarrow>
               (Inr (departments_from_response loads (available_departments self') response),
                self')))"

section \<open>Stage 2: course and prerequisite selection\<close>

text \<open>
  The file system as \<open>_load_department_courses\<close> sees a path: no such file, a file that
  cannot be opened or decoded, or the text of a file.
\<close>

datatype file_state = Absent | Unreadable | Contents string

text \<open>
  \<open>_load_department_courses\<close>: what \<open>json.load\<close> reads from
  \<open>departments/<department>.json\<close>; the empty list when the file does not exist and when
  opening, reading or parsing it raises.
\<close>

definition load_department_courses :: "(string \<Rightarrow> file_state) \<Rightarrow> loads \<Rightarrow> string \<Rightarrow> json" where
  "load_department_courses files loads department =
     (case files (''departments/'' @ department @ ''.json'') of
        Absent \<Rightarrow> JArr []
      | Unreadable \<Rightarrow> JArr []
      | Contents text \<Rightarrow> (case loads text of Inl msg \<Rightarrow> JArr [] | Inr courses \<Rightarrow> courses))"

text \<open>
  \<open>for course in department_courses[:50]\<close>: a list and a string can be sliced; slicing
  a dict or a number raises (a dict raises \<open>TypeError\<close> up to Python 3.11 and \<open>KeyError\<close>
  from 3.12 on, both recorded here as \<open>TypeError\<close>).
\<close>

fun first_fifty :: "json \<Rightarrow> py_error + json list" where
  "first_fifty (JArr xs) = Inr (take 50 xs)"
| "first_fifty (JStr s) = Inr (map (\<lambda>c. JStr [c]) (take 50 s))"
| "first_fifty other = Inl TypeError"

text \<open>
  The values each line of \<open>courses_text\<close> interpolates:
  \<open>course.get('title', 'No Title')\<close> and
  \<open>course.get('short_description', 'No Description')\<close>.
\<close>

fun course_lines :: "json list \<Rightarrow> py_error + (json \<times> json) list" where
  "course_lines [] = Inr []"
| "course_lines (course # rest) =
     (case py_get course ''title'' (JStr ''No Title'') of
        Inl e \<Rightarrow> Inl e
      | Inr title \<Rightarrow>
          (case py_get course ''short_description'' (JStr ''No Description'') of
             Inl e \<Rightarrow> Inl e
           | Inr description \<Rightarrow>
               (case course_lines rest of
                  Inl e \<Rightarrow> Inl e
                | Inr ls \<Rightarrow> Inr ((title, description) # ls))))"

text \<open>
  The body of the \<open>try\<close> in the loop after the call: what
  \<open>all_selected_courses.extend(courses)\<close> appends. Nothing is appended for an absent or
  empty response, for a response with no match and when an exception is raised.
\<close>

definition courses_from_response :: "loads \<Rightarrow> string option \<Rightarrow> json list" where
  "courses_from_response loads response =
     (case response of
        None \<Rightarrow> []
      | Some text \<Rightarrow>
          if text = [] then []
          else (case extract_json array_pattern loads text of
                  NoMatch \<Rightarrow> []
                | Raised msg \<Rightarrow> []
                | Parsed courses \<Rightarrow>
                    (case py_iter courses of Inl e \<Rightarrow> [] | Inr items \<Rightarrow> items)))"

text \<open>
  The loop \<open>for department in selected_departments\<close> with its accumulator
  \<open>all_selected_courses\<close>. Building \<open>courses_text\<close> stands outside the \<open>try\<close>: what it
  raises leaves the method.
\<close>

fun select_courses_loop ::
  "service \<Rightarrow> loads \<Rightarrow> (string \<Rightarrow> file_state) \<Rightarrow> string \<Rightarrow> string \<Rightarrow> string \<Rightarrow> string list
     \<Rightarrow> json list \<Rightarrow> recommender \<Rightarrow> (py_error + json list) \<times> recommender" where
  "select_courses_loop srv loads files advisor transcript skills [] all_selected_courses self =
     (Inr all_selected_courses, self)"
| "select_courses_loop srv loads files advisor transcript skills (department # rest)
     all_selected_courses self =
     (let department_courses = load_department_courses files loads department in
      if \<not> py_truthy department_courses
      then select_courses_loop srv loads files advisor transcript skills rest
             all_selected_courses self
      else (case first_fifty department_courses of
              Inl e \<Rightarrow> (Inl e, self)
            | Inr listed \<Rightarrow>
                (case course_lines listed of
                   Inl e \<Rightarrow> (Inl e, self)
                 | Inr ls \<Rightarrow>
                     (case call_claude_api srv
                             (CoursePrompt department advisor transcript skills ls) 3 self of
                        (response, self') \<Rightarrow>
                          select_courses_loop srv loads files advisor transcript skills rest
                            (all_selected_courses @ courses_from_response loads response)
                            self'))))"

definition select_courses_with_prerequisites ::
  "service \<Rightarrow> loads \<Rightarrow> (string \<Rightarrow> file_state) \<Rightarrow> recommender \<Rightarrow> string list \<Rightarrow> string \<Rightarrow> string
     \<Rightarrow> string list list \<Rightarrow> (py_error + json list) \<times> recommender" where
  "select_courses_with_prerequisites srv loads files self selected_departments
     advisor_description conversation_transcript skill_levels =
     (case skills_text skill_levels of
        Inl e \<Rightarrow> (Inl e, self)
      | Inr skills \<Rightarrow>
          select_courses_loop srv loads files advisor_description conversation_transcript
            skills selected_departments [] self)"

text \<open>
  A department whose course group cannot be loaded: its file is missing, cannot be read,
  or does not parse.
\<close>

definition cannot_be_loaded :: "(string \<Rightarrow> file_state) \<Rightarrow> loads \<Rightarrow> string \<Rightarrow> bool" where
  "cannot_be_loaded files loads department =
     (case files (''departments/'' @ department @ ''.json'') of
        Absent \<Rightarrow> True
      | Unreadable \<Rightarrow> True
      | Contents text \<Rightarrow> (case loads text of Inl msg \<Rightarrow> True | Inr courses \<Rightarrow> False))"

section \<open>Stage 3: roadmap assembly\<close>

text \<open>
  \<open>", ".join(v)\<close> on a value read from JSON: \<open>v\<close> has to be iterable and each of its
  items a string (\<open>TypeError\<close> otherwise).
\<close>

fun str_items :: "json list \<Rightarrow> py_error + string list" where
  "str_items [] = Inr []"
| "str_items (JStr s # rest) =
     (case str_items rest of Inl e \<Rightarrow> Inl e | Inr ss \<Rightarrow> Inr (s # ss))"
| "str_items (other # rest) = Inl TypeError"

definition join_value :: "string \<Rightarrow> json \<Rightarrow> py_error + string" where
  "join_value sep v =
     (case py_iter v of
        Inl e \<Rightarrow> Inl TypeError
      | Inr items \<Rightarrow> (case str_items items of Inl e \<Rightarrow> Inl e | Inr ss \<Rightarrow> Inr (py_join sep ss)))"

text \<open>
  The loop \<open>for i, course in enumerate(courses_with_prereqs)\<close> that builds
  \<open>courses_text\<close>, from the index \<open>i\<close> on. It stands before the \<open>try\<close> of the method.
\<close>

fun roadmap_entries :: "nat \<Rightarrow> json list \<Rightarrow> py_error + roadmap_entry list" where
  "roadmap_entries i [] = Inr []"
| "roadmap_entries i (course # rest) =
     (case py_get course ''prerequisites'' (JArr []) of
        Inl e \<Rightarrow> Inl e
      | Inr listed \<Rightarrow>
          (case join_value '', '' listed of
             Inl e \<Rightarrow> Inl e
           | Inr prereqs \<Rightarrow>
               (case (py_get course ''course_title'' (JStr ''Unknown''),
                      py_get course ''department'' (JStr ''Unknown''),
                      py_get course ''course_description'' (JStr ''No description'')) of
                  (Inr title, Inr department, Inr description) \<Rightarrow>
                    (case roadmap_entries (i + 1) rest of
                       Inl e \<Rightarrow> Inl e
                     | Inr entries \<Rightarrow>
                         Inr ((i + 1, title, department, description,
                               if prereqs \<noteq> [] then prereqs else ''None'') # entries))
                | other \<Rightarrow> Inl AttributeError)))"

definition error_result :: "string \<Rightarrow> json" where
  "error_result msg = JObj [(''error'', JStr msg)]"

text \<open>The body of the \<open>try\<close> of \<open>create_learning_roadmap\<close> after the call.\<close>

definition roadmap_from_response :: "loads \<Rightarrow> string option \<Rightarrow> json" where
  "roadmap_from_response loads response =
     (case response of
        None \<Rightarrow> error_result ''Failed to create roadmap''
      | Some text \<Rightarrow>
          if text = [] then error_result ''Failed to create roadmap''
          else (case extract_json object_pattern loads text of
                  NoMatch \<Rightarrow> error_result ''Failed to create roadmap''
                | Raised msg \<Rightarrow> error_result (''Roadmap creation failed: '' @ msg)
                | Parsed roadmap \<Rightarrow> roadmap))"

text \<open>
  \<open>create_learning_roadmap\<close>. \<open>student_profile\<close> is \<open>None\<close> or a dict; it enters
  the prompt when it is given and not empty.
\<close>

definition create_learning_roadmap ::
  "service \<Rightarrow> loads \<Rightarrow> recommender \<Rightarrow> json list \<Rightarrow> json option
     \<Rightarrow> (py_error + json) \<times> recommender" where
  "create_learning_roadmap srv loads self courses_with_prereqs student_profile =
     (if courses_with_prereqs = []
      then (Inr (error_result ''No courses provided for roadmap creation''), self)
      else (case roadmap_entries 0 courses_with_prereqs of
              Inl e \<Rightarrow> (Inl e, self)
            | Inr entries \<Rightarrow>
                (case call_claude_api srv
                        (RoadmapPrompt
                           (case student_profile of
                              None \<Rightarrow> None
                            | Some p \<Rightarrow> if py_truthy p then Some p else None)
                           entries) 3 self of
                   (response, self') \<Rightarrow> (Inr (roadmap_from_response loads response), self'))))"

section \<open>A reference parser for JSON texts\<close>

text \<open>
  \<open>json.loads\<close> is a parameter of the stages, so what is proved of them holds for the
  library function whatever it answers. The closed examples of this development need one
  concrete parser: \<open>json_loads\<close> reads the JSON texts whose numbers are integers and whose
  strings use no \<open>\u\<close> escape, as \<open>json.loads\<close> does (white space, the three literals,
  integers by \<open>-?(0|[1-9][0-9]*)\<close>, strings with the short escapes and no control
  character, arrays, objects whose later duplicate key replaces the earlier value). It
  answers \<open>Inl\<close> for every other text: rightly for a text that is not JSON, and by
  restriction for a text with a fraction, an exponent, \<open>NaN\<close>, \<open>Infinity\<close> or a
  \<open>\u\<close> escape, which no example here uses. The message of the exception is not
  reproduced.
\<close>

datatype token =
    TLBracket | TRBracket | TLBrace | TRBrace | TComma | TColon
  | TString string | TInt int | TTrue | TFalse | TNull

definition is_digit :: "char \<Rightarrow> bool" where
  "is_digit c = (48 \<le> (of_char c :: nat) \<and> (of_char c :: nat) \<le> 57)"

definition digits_value :: "string \<Rightarrow> nat" where
  "digits_value ds = foldl (\<lambda>a d. 10 * a + (of_char d - 48)) 0 ds"

definition unescape :: "char \<Rightarrow> char option" where
  "unescape e =
     (if e = CHR 0x22 then Some (CHR 0x22)
      else if e = CHR 0x5C then Some (CHR 0x5C)
      else if e = CHR ''/'' then Some (CHR ''/'')
      else if e = CHR ''b'' then Some (CHR 0x08)
      else if e = CHR ''f'' then Some (CHR 0x0C)
      else if e = CHR ''n'' then Some (CHR 0x0A)
      else if e = CHR ''r'' then Some (CHR 0x0D)
      else if e = CHR ''t'' then Some (CHR 0x09)
      else None)"

text \<open>
  The text after an opening quote, up to the closing quote: the string read (its
  characters are collected in reverse) and the text left.
\<close>

fun lex_string :: "string \<Rightarrow> string \<Rightarrow> (string \<times> string) option" where
  "lex_string acc [] = None"
| "lex_string acc [c] = (if c = CHR 0x22 then Some (rev acc, []) else None)"
| "lex_string acc (c # e # cs) =
     (if c = CHR 0x22 then Some (rev acc, e # cs)
      else if c = CHR 0x5C
      then (case unescape e of None \<Rightarrow> None | Some u \<Rightarrow> lex_string (u # acc) cs)
      else if (of_char c :: nat) < 32 then None
      else lex_string (c # acc) (e # cs))"

text \<open>
  An unsigned integer at the head of the text, and the text left. A text that goes on
  with a fraction or an exponent is not read.
\<close>

definition lex_int :: "string \<Rightarrow> (nat \<times> string) option" where
  "lex_int cs =
     (case cs of
        [] \<Rightarrow> None
      | d # ds \<Rightarrow>
          if \<not> is_digit d then None
          else (let rest = (if d = CHR ''0'' then ds else dropWhile is_digit ds);
                    n = (if d = CHR ''0'' then 0 else digits_value (d # takeWhile is_digit ds))
                in if rest \<noteq> [] \<and> hd rest \<in> {CHR ''.'', CHR ''e'', CHR ''E''} then None
                   else Some (n, rest)))"

function lex :: "string \<Rightarrow> token list option" where
  "lex [] = Some []"
| "lex (c # cs) =
     (if c \<in> {CHR '' '', CHR 0x09, CHR 0x0A, CHR 0x0D} then lex cs
      else if c = CHR ''['' then map_option ((#) TLBracket) (lex cs)
      else if c = CHR '']'' then map_option ((#) TRBracket) (lex cs)
      else if c = CHR ''{'' then map_option ((#) TLBrace) (lex cs)
      else if c = CHR ''}'' then map_option ((#) TRBrace) (lex cs)
      else if c = CHR '','' then map_option ((#) TComma) (lex cs)
      else if c = CHR '':'' then map_option ((#) TColon) (lex cs)
      else if c = CHR 0x22
      then (case lex_string [] cs of
              None \<Rightarrow> None
            | Some (s, rest) \<Rightarrow> map_option ((#) (TString s)) (lex rest))
      else if c = CHR ''-''
      then (case lex_int cs of
              None \<Rightarrow> None
            | Some (n, rest) \<Rightarrow> map_option ((#) (TInt (- int n))) (lex rest))
      else if is_digit c
      then (case lex_int (c # cs) of
              None \<Rightarrow> None
            | Some (n, rest) \<Rightarrow> map_option ((#) (TInt (int n))) (lex rest))
      else if prefix ''true'' (c # cs) then map_option ((#) TTrue) (lex (drop 3 cs))
      else if prefix ''false'' (c # cs) then map_option ((#) TFalse) (lex (drop 4 cs))
      else if prefix ''null'' (c # cs) then map_option ((#) TNull) (lex (drop 3 cs))
      else None)"
  by pat_completeness auto
termination
proof (relation "measure length")
  show "wf (measure (length :: string \<Rightarrow> nat))"
    by simp
next
  fix c :: char and cs x2 s rest
  assume "lex_string [] cs = Some x2" and "(s, rest) = x2"
  then have found: "lex_string [] cs = Some (s, rest)"
    by simp
  have "lex_string acc t = Some (r, u) \<Longrightarrow> length u \<le> length t" for acc t r u
    by (induction acc t rule: lex_string.induct) (auto split: if_splits option.splits)
  from this [OF found] show "(rest, c # cs) \<in> measure length"
    by simp
next
  fix c :: char and cs x2 n rest
  assume "lex_int cs = Some x2" and "(n, rest) = x2"
  then have "length rest \<le> length cs"
    using length_dropWhile_le [of is_digit "tl cs"]
    by (auto simp: lex_int_def Let_def split: list.splits if_splits)
  then show "(rest, c # cs) \<in> measure length"
    by simp
next
  fix c :: char and cs x2 and n :: nat and rest
  assume first: "is_digit c" and "lex_int (c # cs) = Some x2" and "(n, rest) = x2"
  then have "length rest \<le> length cs"
    using length_dropWhile_le [of is_digit cs]
    by (auto simp: lex_int_def Let_def split: if_splits)
  then show "(rest, c # cs) \<in> measure length"
    by simp
qed auto

declare lex.simps [simp del]

text \<open>
  The parser keeps a stack of the containers that are open, each with what it holds so
  far (an object also with the key that waits for its value), and what may come next.
\<close>

datatype frame = ArrFrame "json list" | ObjFrame "(string \<times> json) list" "string option"

datatype expect =
    ExpValue | ExpValueOrEnd | ExpKey | ExpKeyOrEnd | ExpColon | ExpSeparator | ExpEnd json

text \<open>A finished value goes into the innermost open container, or is the result.\<close>

fun put_value :: "json \<Rightarrow> frame list \<Rightarrow> (frame list \<times> expect) option" where
  "put_value v [] = Some ([], ExpEnd v)"
| "put_value v (ArrFrame xs # stack) = Some (ArrFrame (xs @ [v]) # stack, ExpSeparator)"
| "put_value v (ObjFrame kvs (Some k) # stack) =
     Some (ObjFrame (AList.update k v kvs) None # stack, ExpSeparator)"
| "put_value v (ObjFrame kvs None # stack) = None"

fun parse_step :: "token \<Rightarrow> frame list \<Rightarrow> expect \<Rightarrow> (frame list \<times> expect) option" where
  "parse_step t stack (ExpEnd v) = None"
| "parse_step TColon stack ExpColon = Some (stack, ExpValue)"
| "parse_step t stack ExpColon = None"
| "parse_step (TString k) (ObjFrame kvs None # stack) ExpKey =
     Some (ObjFrame kvs (Some k) # stack, ExpColon)"
| "parse_step t stack ExpKey = None"
| "parse_step (TString k) (ObjFrame kvs None # stack) ExpKeyOrEnd =
     Some (ObjFrame kvs (Some k) # stack, ExpColon)"
| "parse_step TRBrace (ObjFrame kvs None # stack) ExpKeyOrEnd = put_value (JObj kvs) stack"
| "parse_step t stack ExpKeyOrEnd = None"
| "parse_step TComma (ArrFrame xs # stack) ExpSeparator = Some (ArrFrame xs # stack, ExpValue)"
| "parse_step TRBracket (ArrFrame xs # stack) ExpSeparator = put_value (JArr xs) stack"
| "parse_step TComma (ObjFrame kvs None # stack) ExpSeparator =
     Some (ObjFrame kvs None # stack, ExpKey)"
| "parse_step TRBrace (ObjFrame kvs None # stack) ExpSeparator = put_value (JObj kvs) stack"
| "parse_step t stack ExpSeparator = None"
| "parse_step TRBracket (ArrFrame xs # stack) ExpValueOrEnd = put_value (JArr xs) stack"
| "parse_step (TString s) stack e = put_value (JStr s) stack"
| "parse_step (TInt i) stack e = put_value (JInt i) stack"
| "parse_step TTrue stack e = put_value (JBool True) stack"
| "parse_step TFalse stack e = put_value (JBool False) stack"
| "parse_step TNull stack e = put_value JNull stack"
| "parse_step TLBracket stack e = Some (ArrFrame [] # stack, ExpValueOrEnd)"
| "parse_step TLBrace stack e = Some (ObjFrame [] None # stack, ExpKeyOrEnd)"
| "parse_step t stack e = None"

fun parse_tokens :: "token list \<Rightarrow> frame list \<Rightarrow> expect \<Rightarrow> json option" where
  "parse_tokens [] stack (ExpEnd v) = Some v"
| "parse_tokens [] stack e = None"
| "parse_tokens (t # ts) stack e =
     (case parse_step t stack e of
        None \<Rightarrow> None
      | Some (stack', e') \<Rightarrow> parse_tokens ts stack' e')"

definition json_loads :: loads where
  "json_loads s =
     (case lex s of
        None \<Rightarrow> Inl ''JSONDecodeError''
      | Some tokens \<Rightarrow>
          (case parse_tokens tokens [] ExpValue of
             None \<Rightarrow> Inl ''JSONDecodeError''
           | Some v \<Rightarrow> Inr v))"

section \<open>The recommender as constructed\<close>

text \<open>
  \<open>CourseRecommendationSystem.__init__\<close>: the model name and the catalog of the 38
  departments with their course counts; no call made and nothing slept yet.
\<close>

definition init_recommender :: recommender where
  "init_recommender =
     \<lparr>model = ''claude-sonnet-4-20250514'',
      available_departments =
       [(''Aeronautics_and_Astronautics'', 92),
        (''Anthropology'', 67),
        (''Architecture'', 116),
        (''Athletics,_Physical_Education_and_Recreation'', 10),
        (''Biological_Engineering'', 41),
        (''Biology'', 85),
        (''Brain_and_Cognitive_Sciences'', 99),
        (''Chemical_Engineering'', 57),
        (''Chemistry'', 43),
        (''Civil_and_Environmental_Engineering'', 105),
        (''Comparative_Media_Studies_Writing'', 71),
        (''Concourse'', 5),
        (''Earth,_Atmospheric,_and_Planetary_Sciences'', 111),
        (''Economics'', 85),
        (''Edgerton_Center'', 28),
        (''Electrical_Engineering_and_Computer_Science'', 298),
        (''Engineering_Systems_Division'', 66),
        (''Experimental_Study_Group'', 30),
        (''Global_Studies_and_Languages'', 121),
        (''Health_Sciences_and_Technology'', 72),
        (''History'', 91),
        (''Institute_for_Data,_Systems,_and_Society'', 20),
        (''Linguistics_and_Philosophy'', 85),
        (''Literature'', 128),
        (''Materials_Science_and_Engineering'', 92),
        (''Mathematics'', 213),
        (''Mechanical_Engineering'', 162),
        (''Media_Arts_and_Sciences'', 47),
        (''Music_and_Theater_Arts'', 69),
        (''Nuclear_Science_and_Engineering'', 53),
        (''Others'', 447),
        (''Physics'', 117),
        (''Political_Science'', 97),
        (''Science,_Technology_and_Society'', 70),
        (''Sloan_School_of_Management'', 218),
        (''Special_Programs'', 2),
        (''Urban_Studies_and_Planning'', 211),
        (''Women's_and_Gender_Studies'', 61)],
      api_calls = 0,
      slept = []\<rparr>"
























section \<open>Sanitising a department name\<close>



section \<open>Grouping the corpus by department\<close>

lemma group_of_append_to_group:
  "group_of (append_to_group name course departments) g =
     (if g = name then group_of departments name @ [course] else group_of departments g)"
  by (simp add: group_of_def append_to_group_def update_conv')

lemma add_to_departments_grows:
  "add_to_departments names course departments = Inr departments' \<Longrightarrow>
   set (group_of departments g) \<subseteq> set (group_of departments' g)"
proof (induction names course departments rule: add_to_departments.induct)
  case (2 dept_name rest course departments)
  have "set (group_of departments g)
      \<subseteq> set (group_of (append_to_group (clean_filename dept_name) course departments) g)"
    by (auto simp: group_of_append_to_group)
  with 2 show ?case by auto
qed auto

lemma add_to_departments_places:
  "add_to_departments names course departments = Inr departments' \<Longrightarrow>
   JStr name \<in> set names \<Longrightarrow>
   course \<in> set (group_of departments' (clean_filename name))"
proof (induction names course departments rule: add_to_departments.induct)
  case (2 dept_name rest course departments)
  let ?d = "append_to_group (clean_filename dept_name) course departments"
  from 2 have rest: "add_to_departments rest course ?d = Inr departments'"
    by simp
  show ?case
  proof (cases "name = dept_name")
    case True
    have "course \<in> set (group_of ?d (clean_filename name))"
      using True by (simp add: group_of_append_to_group)
    then show ?thesis
      using add_to_departments_grows [OF rest] by blast
  next
    case False
    then show ?thesis
      using 2 by auto
  qed
qed auto

lemma add_to_departments_only_course:
  "add_to_departments names course departments = Inr departments' \<Longrightarrow>
   set (group_of departments' g) \<subseteq> insert course (set (group_of departments g))"
proof (induction names course departments rule: add_to_departments.induct)
  case (2 dept_name rest course departments)
  have "set (group_of (append_to_group (clean_filename dept_name) course departments) g)
      \<subseteq> insert course (set (group_of departments g))"
    by (auto simp: group_of_append_to_group)
  with 2 show ?case by auto
qed auto

lemma group_courses_grows:
  "group_courses courses departments = Inr departments' \<Longrightarrow>
   set (group_of departments g) \<subseteq> set (group_of departments' g)"
proof (induction courses arbitrary: departments)
  case Nil
  then show ?case by simp
next
  case (Cons course rest)
  from Cons.prems obtain department_names where
    get: "py_get course ''department_name'' (JArr []) = Inr department_names"
    by (auto split: sum.splits)
  show ?case
  proof (cases "py_truthy department_names")
    case False
    with Cons.prems get
    have "group_courses rest (append_to_group ''Others'' course departments) = Inr departments'"
      by simp
    from Cons.IH [OF this] show ?thesis
      by (auto simp: group_of_append_to_group split: if_splits)
  next
    case True
    with Cons.prems get obtain names mid where
      add: "add_to_departments names course departments = Inr mid" and
      rest: "group_courses rest mid = Inr departments'"
      by (auto split: sum.splits)
    show ?thesis
      using add_to_departments_grows [OF add] Cons.IH [OF rest] by blast
  qed
qed

lemma group_courses_places:
  "group_courses courses departments = Inr departments' \<Longrightarrow>
   course \<in> set courses \<Longrightarrow>
   py_get course ''department_name'' (JArr []) = Inr department_names \<Longrightarrow>
   (py_truthy department_names \<longrightarrow>
      (\<forall>names name. py_iter department_names = Inr names \<longrightarrow> JStr name \<in> set names \<longrightarrow>
         course \<in> set (group_of departments' (clean_filename name))))
   \<and> (\<not> py_truthy department_names \<longrightarrow> course \<in> set (group_of departments' ''Others''))"
proof (induction courses arbitrary: departments)
  case Nil
  then show ?case by simp
next
  case (Cons c rest)
  from Cons.prems(1) obtain dn where
    get: "py_get c ''department_name'' (JArr []) = Inr dn"
    by (auto split: sum.splits)
  show ?case
  proof (cases "py_truthy dn")
    case False
    with Cons.prems(1) get
    have rest: "group_courses rest (append_to_group ''Others'' c departments) = Inr departments'"
      by simp
    show ?thesis
    proof (cases "course = c")
      case True
      have "c \<in> set (group_of (append_to_group ''Others'' c departments) ''Others'')"
        by (simp add: group_of_append_to_group)
      then have "c \<in> set (group_of departments' ''Others'')"
        using group_courses_grows [OF rest] by blast
      then show ?thesis
        using True False get Cons.prems(3) by simp
    next
      case False
      then have "course \<in> set rest"
        using Cons.prems(2) by simp
      from Cons.IH [OF rest this Cons.prems(3)] show ?thesis .
    qed
  next
    case truthy: True
    with Cons.prems(1) get obtain names mid where
      iter: "py_iter dn = Inr names" and
      add: "add_to_departments names c departments = Inr mid" and
      rest: "group_courses rest mid = Inr departments'"
      by (auto split: sum.splits)
    show ?thesis
    proof (cases "course = c")
      case True
      have "c \<in> set (group_of departments' (clean_filename name))" if "JStr name \<in> set names" for name
        using add_to_departments_places [OF add that] group_courses_grows [OF rest] by blast
      then show ?thesis
        using True truthy get iter Cons.prems(3) by auto
    next
      case False
      then have "course \<in> set rest"
        using Cons.prems(2) by simp
      from Cons.IH [OF rest this Cons.prems(3)] show ?thesis .
    qed
  qed
qed

lemma group_courses_named_groups:
  "group_courses courses departments = Inr departments' \<Longrightarrow>
   named_groups_listed departments \<Longrightarrow> named_groups_listed departments'"
proof (induction courses arbitrary: departments)
  case Nil
  then show ?case by simp
next
  case (Cons c rest)
  from Cons.prems(1) obtain dn where
    get: "py_get c ''department_name'' (JArr []) = Inr dn"
    by (auto split: sum.splits)
  show ?case
  proof (cases "py_truthy dn")
    case False
    with Cons.prems(1) get
    have rest: "group_courses rest (append_to_group ''Others'' c departments) = Inr departments'"
      by simp
    have "named_groups_listed (append_to_group ''Others'' c departments)"
      using Cons.prems(2) by (simp add: named_groups_listed_def group_of_append_to_group)
    from Cons.IH [OF rest this] show ?thesis .
  next
    case truthy: True
    with Cons.prems(1) get obtain names mid where
      add: "add_to_departments names c departments = Inr mid" and
      rest: "group_courses rest mid = Inr departments'"
      by (auto split: sum.splits)
    have c: "lists_department c"
      using get truthy by (simp add: lists_department_def)
    have "named_groups_listed mid"
      unfolding named_groups_listed_def
    proof (intro allI impI)
      fix g x
      assume "g \<noteq> ''Others''" "x \<in> set (group_of mid g)"
      then show "lists_department x"
        using add_to_departments_only_course [OF add, of g] c Cons.prems(2)
        by (auto simp: named_groups_listed_def)
    qed
    from Cons.IH [OF rest this] show ?thesis .
  qed
qed

lemma add_to_departments_returns:
  "list_all is_str names \<Longrightarrow> \<exists>departments'. add_to_departments names course departments = Inr departments'"
proof (induction names arbitrary: departments)
  case Nil
  show ?case by simp
next
  case (Cons name rest)
  then obtain s where "name = JStr s"
    by (cases name) auto
  with Cons show ?case by simp
qed

lemma group_courses_returns:
  "list_all well_formed_course courses \<Longrightarrow>
   \<exists>departments'. group_courses courses departments = Inr departments'"
proof (induction courses arbitrary: departments)
  case Nil
  show ?case by simp
next
  case (Cons course rest)
  then have course: "well_formed_course course" and rest: "list_all well_formed_course rest"
    by simp_all
  from course obtain department_names where
    get: "py_get course ''department_name'' (JArr []) = Inr department_names"
    by (auto simp: well_formed_course_def split: sum.splits)
  show ?case
  proof (cases "py_truthy department_names")
    case False
    then show ?thesis
      using get Cons.IH [OF rest] by simp
  next
    case True
    with course get obtain names where
      iter: "py_iter department_names = Inr names" and strs: "list_all is_str names"
      by (auto simp: well_formed_course_def split: sum.splits)
    obtain mid where "add_to_departments names course departments = Inr mid"
      using add_to_departments_returns [OF strs] by blast
    then show ?thesis
      using get True iter Cons.IH [OF rest] by simp
  qed
qed

lemma split_courses_by_department_returns:
  "list_all well_formed_course courses \<Longrightarrow>
   \<exists>departments. split_courses_by_department (JArr courses) = Inr departments"
  by (simp add: split_courses_by_department_def group_courses_returns)

lemma grouped_course_placement:
  assumes split: "split_courses_by_department courses_data = Inr departments"
    and iter: "py_iter courses_data = Inr courses"
    and course: "course \<in> set courses"
    and get: "py_get course ''department_name'' (JArr []) = Inr department_names"
  shows "(department_names = JArr (map JStr names) \<longrightarrow>
           (\<forall>name \<in> set names. course \<in> set (group_of departments (clean_filename name))))
       \<and> (\<not> py_truthy department_names \<longrightarrow>
           course \<in> set (group_of departments ''Others'')
           \<and> (\<forall>g. g \<noteq> ''Others'' \<longrightarrow> course \<notin> set (group_of departments g)))"
proof -
  from split iter have run: "group_courses courses [] = Inr departments"
    by (simp add: split_courses_by_department_def)
  note places = group_courses_places [OF run course get]
  have listed: "named_groups_listed departments"
    using group_courses_named_groups [OF run] by (simp add: named_groups_listed_def group_of_def)
  have first: "course \<in> set (group_of departments (clean_filename name))"
    if "department_names = JArr (map JStr names)" "name \<in> set names" for name
  proof -
    have "py_truthy department_names"
      using that by auto
    moreover have "py_iter department_names = Inr (map JStr names)"
      using that by simp
    moreover have "JStr name \<in> set (map JStr names)"
      using that by simp
    ultimately show ?thesis
      using places by blast
  qed
  have second: "course \<notin> set (group_of departments g)"
    if "\<not> py_truthy department_names" "g \<noteq> ''Others''" for g
  proof
    assume "course \<in> set (group_of departments g)"
    then have "lists_department course"
      using listed that by (auto simp: named_groups_listed_def)
    then show False
      using get that by (simp add: lists_department_def)
  qed
  show ?thesis
    using places first second by blast
qed

lemma dict_course_well_formed:
  assumes "course = JObj kvs"
    and "map_of kvs ''department_name'' = None
      \<or> (\<exists>names. map_of kvs ''department_name'' = Some (JArr (map JStr names)))"
  shows "well_formed_course course"
proof -
  have "list_all is_str (map JStr names)" for names
    by (induction names) auto
  then show ?thesis
    using assms by (auto simp: well_formed_course_def)
qed

text \<open>
  C6. \<open>split_courses_by_department\<close> returns its groups for every collection of course
  dicts whose \<open>department_name\<close> is missing or a list of strings. Whenever it returns, a
  course of the collection whose \<open>department_name\<close> lists the names \<open>names\<close> is in the
  group of every one of them (under its sanitised name), and a course whose
  \<open>department_name\<close> is missing or empty is in the group \<open>Others\<close> and in no other group.
\<close>

theorem split_courses_by_department_groups:
  "(list_all
      (\<lambda>c. \<exists>kvs. c = JObj kvs
         \<and> (map_of kvs ''department_name'' = None
            \<or> (\<exists>names. map_of kvs ''department_name'' = Some (JArr (map JStr names)))))
      courses
    \<longrightarrow> (\<exists>departments. split_courses_by_department (JArr courses) = Inr departments))
   \<and> (split_courses_by_department courses_data = Inr departments \<longrightarrow>
       py_iter courses_data = Inr courses \<longrightarrow>
       course \<in> set courses \<longrightarrow>
       py_get course ''department_name'' (JArr []) = Inr department_names \<longrightarrow>
         (department_names = JArr (map JStr names) \<longrightarrow>
            (\<forall>name \<in> set names. course \<in> set (group_of departments (clean_filename name))))
         \<and> (\<not> py_truthy department_names \<longrightarrow>
            course \<in> set (group_of departments ''Others'')
            \<and> (\<forall>g. g \<noteq> ''Others'' \<longrightarrow> course \<notin> set (group_of departments g))))"
proof (intro conjI impI)
  assume "list_all
      (\<lambda>c. \<exists>kvs. c = JObj kvs
         \<and> (map_of kvs ''department_name'' = None
            \<or> (\<exists>names. map_of kvs ''department_name'' = Some (JArr (map JStr names)))))
      courses"
  then have "list_all well_formed_course courses"
    unfolding list_all_iff using dict_course_well_formed by blast
  then show "\<exists>departments. split_courses_by_department (JArr courses) = Inr departments"
    by (rule split_courses_by_department_returns)
next
  assume run: "split_courses_by_department courses_data = Inr departments"
    and iter: "py_iter courses_data = Inr courses"
    and course: "course \<in> set courses"
    and get: "py_get course ''department_name'' (JArr []) = Inr department_names"
  note placed = grouped_course_placement [OF run iter course get, of names]
  {
    assume "department_names = JArr (map JStr names)"
    with placed show "\<forall>name \<in> set names. course \<in> set (group_of departments (clean_filename name))"
      by blast
  }
  {
    assume "\<not> py_truthy department_names"
    with placed show "course \<in> set (group_of departments ''Others'')"
      and "\<forall>g. g \<noteq> ''Others'' \<longrightarrow> course \<notin> set (group_of departments g)"
      by blast+
  }
qed

theorem split_courses_by_department_groups_witness:
  "(\<exists>departments. split_courses_by_department (JArr [JObj [(''title'', JStr ''t1''), (''department_name'', JArr [JStr ''A'', JStr ''C/D:E''])], JObj [(''title'', JStr ''t2''), (''department_name'', JArr [])], JObj [(''title'', JStr ''t3'')]]) = Inr departments)
   \<and> split_courses_by_department (JArr [JObj [(''title'', JStr ''t1''), (''department_name'', JArr [JStr ''A'', JStr ''C/D:E''])], JObj [(''title'', JStr ''t2''), (''department_name'', JArr [])], JObj [(''title'', JStr ''t3'')]]) = Inr [(''A'', [JObj [(''title'', JStr ''t1''), (''department_name'', JArr [JStr ''A'', JStr ''C/D:E''])]]),
            (''C_D_E'', [JObj [(''title'', JStr ''t1''), (''department_name'', JArr [JStr ''A'', JStr ''C/D:E''])]]),
            (''Others'', [JObj [(''title'', JStr ''t2''), (''department_name'', JArr [])],
                          JObj [(''title'', JStr ''t3'')]])]
   \<and> JObj [(''title'', JStr ''t1''), (''department_name'', JArr [JStr ''A'', JStr ''C/D:E''])] \<in> set (group_of [(''A'', [JObj [(''title'', JStr ''t1''), (''department_name'', JArr [JStr ''A'', JStr ''C/D:E''])]]),
            (''C_D_E'', [JObj [(''title'', JStr ''t1''), (''department_name'', JArr [JStr ''A'', JStr ''C/D:E''])]]),
            (''Others'', [JObj [(''title'', JStr ''t2''), (''department_name'', JArr [])],
                          JObj [(''title'', JStr ''t3'')]])] (clean_filename ''C/D:E''))
   \<and> JObj [(''title'', JStr ''t3'')] \<notin> set (group_of [(''A'', [JObj [(''title'', JStr ''t1''), (''department_name'', JArr [JStr ''A'', JStr ''C/D:E''])]]),
            (''C_D_E'', [JObj [(''title'', JStr ''t1''), (''department_name'', JArr [JStr ''A'', JStr ''C/D:E''])]]),
            (''Others'', [JObj [(''title'', JStr ''t2''), (''department_name'', JArr [])],
                          JObj [(''title'', JStr ''t3'')]])] ''A'')"
proof -
  let ?c1 = "JObj [(''title'', JStr ''t1''), (''department_name'', JArr [JStr ''A'', JStr ''C/D:E''])]"
  let ?c2 = "JObj [(''title'', JStr ''t2''), (''department_name'', JArr [])]"
  let ?c3 = "JObj [(''title'', JStr ''t3'')]"
  let ?gs = "[(''A'', [?c1]), (''C_D_E'', [?c1]), (''Others'', [?c2, ?c3])]"
  note claim = split_courses_by_department_groups
    [where courses = "[?c1, ?c2, ?c3]" and courses_data = "JArr [?c1, ?c2, ?c3]"
       and departments = ?gs]
  have shape: "list_all
      (\<lambda>c. \<exists>kvs. c = JObj kvs
         \<and> (map_of kvs ''department_name'' = None
            \<or> (\<exists>names. map_of kvs ''department_name'' = Some (JArr (map JStr names)))))
      [?c1, ?c2, ?c3]"
  proof -
    have "JArr [JStr ''A'', JStr ''C/D:E''] = JArr (map JStr [''A'', ''C/D:E''])"
      and "JArr [] = JArr (map JStr [])"
      by simp_all
    then show ?thesis
      by (simp del: list.map) blast
  qed
  have returns: "\<exists>departments. split_courses_by_department (JArr [?c1, ?c2, ?c3]) = Inr departments"
    using claim [THEN conjunct1] shape by blast
  have run: "split_courses_by_department (JArr [?c1, ?c2, ?c3]) = Inr ?gs"
    by code_simp
  have iter: "py_iter (JArr [?c1, ?c2, ?c3]) = Inr [?c1, ?c2, ?c3]"
    by simp
  have get1: "py_get ?c1 ''department_name'' (JArr []) = Inr (JArr (map JStr [''A'', ''C/D:E'']))"
    by simp
  have get3: "py_get ?c3 ''department_name'' (JArr []) = Inr (JArr [])"
    by simp
  have in1: "?c1 \<in> set [?c1, ?c2, ?c3]" and in3: "?c3 \<in> set [?c1, ?c2, ?c3]"
    by simp_all
  have a: "?c1 \<in> set (group_of ?gs (clean_filename ''C/D:E''))"
    using claim [THEN conjunct2, rule_format, OF run iter in1 get1, of "[''A'', ''C/D:E'']"]
    by simp
  have b: "?c3 \<notin> set (group_of ?gs ''A'')"
    using claim [THEN conjunct2, rule_format, OF run iter in3 get3, of "[]"]
    by simp
  show ?thesis
    using returns run a b by (intro conjI)
qed

section \<open>What the two patterns match\<close>

lemma match_lazy_tail:
  "match_here [AnyLazy, Lit c] s =
     (if c \<in> set s then Some (takeWhile (\<lambda>x. x \<noteq> c) s @ [c]) else None)"
  by (induction s) auto

lemma match_greedy_tail:
  "match_here [AnyGreedy, Lit c] s =
     (if c \<in> set s then Some (rev (dropWhile (\<lambda>x. x \<noteq> c) (rev s))) else None)"
proof (induction s)
  case Nil
  show ?case by simp
next
  case (Cons x s)
  show ?case
  proof (cases "c \<in> set s")
    case True
    then have "dropWhile (\<lambda>x. x \<noteq> c) (rev s @ [x]) = dropWhile (\<lambda>x. x \<noteq> c) (rev s) @ [x]"
      by (intro dropWhile_append1 [where x = c]) auto
    then show ?thesis
      using True Cons by simp
  next
    case False
    then have "dropWhile (\<lambda>x. x \<noteq> c) (rev s @ [x]) = (if x = c then [x] else [])"
      by (subst dropWhile_append2) auto
    then show ?thesis
      using False Cons by auto
  qed
qed




lemma re_search_no_open: "d \<notin> set s \<Longrightarrow> re_search (Lit d # p) s = None"
  by (induction s) auto

lemma re_search_no_close: "c \<notin> set s \<Longrightarrow> re_search [Lit d, AnyLazy, Lit c] s = None"
  by (induction s) (auto simp: match_lazy_tail simp del: match_here.simps(5))

lemma re_search_no_close_greedy: "c \<notin> set s \<Longrightarrow> re_search [Lit d, AnyGreedy, Lit c] s = None"
  by (induction s) (auto simp: match_greedy_tail simp del: match_here.simps(7))



section \<open>The completion client\<close>

lemma call_from_exhausted:
  "\<not> attempt < max_retries \<Longrightarrow>
   call_claude_api_from srv prompt max_retries attempt self = (None, self)"
  by (subst call_claude_api_from.simps) simp

lemma call_from_reply:
  "attempt < max_retries \<Longrightarrow> srv (api_calls self) prompt = Reply answer \<Longrightarrow>
   call_claude_api_from srv prompt max_retries attempt self =
     (Some answer, self\<lparr>api_calls := api_calls self + 1\<rparr>)"
  by (subst call_claude_api_from.simps) simp

lemma call_from_last_failure:
  "attempt < max_retries \<Longrightarrow> \<not> attempt < max_retries - 1 \<Longrightarrow>
   srv (api_calls self) prompt = Failure \<Longrightarrow>
   call_claude_api_from srv prompt max_retries attempt self =
     (None, self\<lparr>api_calls := api_calls self + 1\<rparr>)"
  by (subst call_claude_api_from.simps) simp

lemma call_from_failure:
  "attempt < max_retries - 1 \<Longrightarrow> srv (api_calls self) prompt = Failure \<Longrightarrow>
   call_claude_api_from srv prompt max_retries attempt self =
     call_claude_api_from srv prompt max_retries (attempt + 1)
       (self\<lparr>api_calls := api_calls self + 1, slept := slept self @ [2 ^ nat attempt]\<rparr>)"
  by (subst call_claude_api_from.simps) simp

lemma call_from_succeeds_after:
  "a + k < m \<Longrightarrow> (\<forall>i<k. srv (api_calls self + i) prompt = Failure) \<Longrightarrow>
   srv (api_calls self + k) prompt = Reply answer \<Longrightarrow>
   call_claude_api_from srv prompt (int m) (int a) self =
     (Some answer, self\<lparr>api_calls := api_calls self + k + 1,
                      slept := slept self @ map (\<lambda>j. 2 ^ j) [a..<a + k]\<rparr>)"
proof (induction k arbitrary: a self)
  case 0
  then show ?case
    by (simp add: call_from_reply)
next
  case (Suc k)
  let ?next = "self\<lparr>api_calls := api_calls self + 1, slept := slept self @ [2 ^ nat (int a)]\<rparr>"
  have first: "srv (api_calls self) prompt = Failure"
    using Suc.prems(2) by (metis add.right_neutral zero_less_Suc)
  have step: "call_claude_api_from srv prompt (int m) (int a) self =
      call_claude_api_from srv prompt (int m) (int a + 1) ?next"
    using Suc.prems(1) first by (intro call_from_failure) auto
  have later: "\<forall>i<k. srv (api_calls ?next + i) prompt = Failure"
    using Suc.prems(2) by (metis Suc_less_eq add_Suc_shift select_convs(3) surjective update_convs(3,4) Suc_eq_plus1)
  have reply: "srv (api_calls ?next + k) prompt = Reply answer"
    using Suc.prems(3) by simp
  have "call_claude_api_from srv prompt (int m) (int (Suc a)) ?next =
      (Some answer, ?next\<lparr>api_calls := api_calls ?next + k + 1,
                          slept := slept ?next @ map (\<lambda>j. 2 ^ j) [Suc a..<Suc a + k]\<rparr>)"
    using Suc.prems(1) by (intro Suc.IH later reply) simp
  then show ?case
    unfolding step by (simp add: upt_conv_Cons add.commute)
qed

lemma call_from_all_fail:
  "a < m \<Longrightarrow> (\<forall>i<m - a. srv (api_calls self + i) prompt = Failure) \<Longrightarrow>
   call_claude_api_from srv prompt (int m) (int a) self =
     (None, self\<lparr>api_calls := api_calls self + (m - a),
                   slept := slept self @ map (\<lambda>j. 2 ^ j) [a..<m - 1]\<rparr>)"
proof (induction "m - a" arbitrary: a self)
  case 0
  then show ?case by simp
next
  case (Suc n)
  have first: "srv (api_calls self) prompt = Failure"
    using Suc.prems(2) Suc.hyps(2) by (metis add.right_neutral zero_less_Suc)
  show ?case
  proof (cases "n = 0")
    case True
    then have last: "m = Suc a"
      using Suc.hyps(2) by simp
    show ?thesis
      using first by (simp add: last call_from_last_failure)
  next
    case False
    let ?next = "self\<lparr>api_calls := api_calls self + 1, slept := slept self @ [2 ^ nat (int a)]\<rparr>"
    have more: "Suc a < m" and n: "n = m - Suc a"
      using False Suc.hyps(2) by auto
    have step: "call_claude_api_from srv prompt (int m) (int a) self =
        call_claude_api_from srv prompt (int m) (int a + 1) ?next"
      using more first by (intro call_from_failure) auto
    have later: "\<forall>i<m - Suc a. srv (api_calls ?next + i) prompt = Failure"
    proof (intro allI impI)
      fix i assume "i < m - Suc a"
      then have "Suc i < m - a" by simp
      then have "srv (api_calls self + Suc i) prompt = Failure"
        using Suc.prems(2) by blast
      then show "srv (api_calls ?next + i) prompt = Failure" by simp
    qed
    have "call_claude_api_from srv prompt (int m) (int (Suc a)) ?next =
        (None, ?next\<lparr>api_calls := api_calls ?next + (m - Suc a),
                        slept := slept ?next @ map (\<lambda>j. 2 ^ j) [Suc a..<m - 1]\<rparr>)"
      by (rule Suc.hyps(1) [OF n more later])
    moreover have "[a..<m - 1] = a # [Suc a..<m - 1]"
      using more by (simp add: upt_conv_Cons)
    ultimately show ?thesis
      unfolding step using more by (simp add: add.commute)
  qed
qed

lemma backoff_increasing: "sorted_wrt (<) (map (\<lambda>j. (2::nat) ^ j) [0..<n])"
  by (simp add: sorted_wrt_map sorted_wrt_upt power_strict_increasing_iff
      sorted_wrt_mono_rel [of "[0..<n]" "(<)"])

text \<open>
  C3. With \<open>max_retries = m\<close>: when the service fails the first \<open>k < m\<close> calls and then
  replies, \<open>_call_claude_api\<close> returns the reply after \<open>k + 1\<close> calls, having slept
  \<open>2^0, ..., 2^(k-1)\<close>; when the service fails \<open>m\<close> calls in a row, it returns \<open>None\<close>
  after exactly \<open>m\<close> calls, having slept \<open>2^0, ..., 2^(m-2)\<close>; these delays are strictly
  increasing.
\<close>

theorem call_claude_api_retries:
  "(k < m \<longrightarrow> (\<forall>i<k. srv (api_calls self + i) prompt = Failure) \<longrightarrow>
      srv (api_calls self + k) prompt = Reply answer \<longrightarrow>
      call_claude_api srv prompt (int m) self =
        (Some answer, self\<lparr>api_calls := api_calls self + k + 1,
                         slept := slept self @ map (\<lambda>j. 2 ^ j) [0..<k]\<rparr>))
   \<and> ((\<forall>i<m. srv (api_calls self + i) prompt = Failure) \<longrightarrow>
      call_claude_api srv prompt (int m) self =
        (None, self\<lparr>api_calls := api_calls self + m,
                      slept := slept self @ map (\<lambda>j. 2 ^ j) [0..<m - 1]\<rparr>))
   \<and> sorted_wrt (<) (map (\<lambda>j. (2::nat) ^ j) [0..<m - 1])"
proof (intro conjI impI)
  assume "k < m" "\<forall>i<k. srv (api_calls self + i) prompt = Failure"
    "srv (api_calls self + k) prompt = Reply answer"
  then show "call_claude_api srv prompt (int m) self =
      (Some answer, self\<lparr>api_calls := api_calls self + k + 1,
                       slept := slept self @ map (\<lambda>j. 2 ^ j) [0..<k]\<rparr>)"
    using call_from_succeeds_after [of 0 k m srv self prompt answer]
    by (simp add: call_claude_api_def)
next
  assume fails: "\<forall>i<m. srv (api_calls self + i) prompt = Failure"
  show "call_claude_api srv prompt (int m) self =
      (None, self\<lparr>api_calls := api_calls self + m,
                    slept := slept self @ map (\<lambda>j. 2 ^ j) [0..<m - 1]\<rparr>)"
  proof (cases "m = 0")
    case True
    then show ?thesis
      by (simp add: call_claude_api_def call_from_exhausted)
  next
    case False
    then show ?thesis
      using fails call_from_all_fail [of 0 m srv self prompt]
      by (simp add: call_claude_api_def)
  qed
next
  show "sorted_wrt (<) (map (\<lambda>j. (2::nat) ^ j) [0..<m - 1])"
    by (rule backoff_increasing)
qed

lemma init_recommender_fresh:
  "api_calls init_recommender = 0" "slept init_recommender = []"
  by (simp_all add: init_recommender_def)

theorem call_claude_api_retries_witness:
  "call_claude_api (\<lambda>n p. if n < 2 then Failure else Reply ''ok'')
      (DepartmentPrompt [] [] [] []) 3 init_recommender
     = (Some ''ok'', init_recommender\<lparr>api_calls := 3, slept := [1, 2]\<rparr>)
   \<and> call_claude_api (\<lambda>n p. Failure) (DepartmentPrompt [] [] [] []) 3 init_recommender
     = (None, init_recommender\<lparr>api_calls := 3, slept := [1, 2]\<rparr>)
   \<and> sorted_wrt (<) [1, 2 :: nat]"
proof -
  have upt: "[0..<2] = [0, Suc 0]"
    by (simp add: numeral_2_eq_2)
  have a: "call_claude_api (\<lambda>n p. if n < 2 then Failure else Reply ''ok'')
      (DepartmentPrompt [] [] [] []) 3 init_recommender
     = (Some ''ok'', init_recommender\<lparr>api_calls := 3, slept := [1, 2]\<rparr>)"
    using call_claude_api_retries [of 2 3 "\<lambda>n p. if n < 2 then Failure else Reply ''ok''"
        init_recommender "DepartmentPrompt [] [] [] []" "''ok''"]
    by (simp add: init_recommender_fresh upt)
  have b: "call_claude_api (\<lambda>n p. Failure) (DepartmentPrompt [] [] [] []) 3 init_recommender
     = (None, init_recommender\<lparr>api_calls := 3, slept := [1, 2]\<rparr>)"
    using call_claude_api_retries [of 0 3 "\<lambda>n p. Failure"
        init_recommender "DepartmentPrompt [] [] [] []" "''ok''"]
    by (simp add: init_recommender_fresh upt)
  show ?thesis
    using a b by simp
qed

section \<open>The catalog is only read\<close>

lemma call_from_keeps_catalog:
  "available_departments (snd (call_claude_api_from srv prompt max_retries attempt self)) =
     available_departments self
   \<and> model (snd (call_claude_api_from srv prompt max_retries attempt self)) = model self"
proof (induction srv prompt max_retries attempt self rule: call_claude_api_from.induct)
  case (1 srv prompt max_retries attempt self)
  show ?case
  proof (cases "attempt < max_retries")
    case False
    then show ?thesis by (simp add: call_from_exhausted)
  next
    case True
    show ?thesis
    proof (cases "srv (api_calls self) prompt")
      case (Reply answer)
      then show ?thesis using True by (simp add: call_from_reply)
    next
      case Failure
      show ?thesis
      proof (cases "attempt < max_retries - 1")
        case False
        then show ?thesis using True Failure by (simp add: call_from_last_failure)
      next
        case more: True
        then show ?thesis
          using 1 [OF True Failure more] Failure by (simp add: call_from_failure)
      qed
    qed
  qed
qed

lemma call_keeps_catalog:
  "call_claude_api srv prompt max_retries self = (response, self') \<Longrightarrow>
   available_departments self' = available_departments self"
  using call_from_keeps_catalog [of srv prompt max_retries 0 self]
  by (simp add: call_claude_api_def)

lemma select_courses_loop_keeps_catalog:
  "available_departments
     (snd (select_courses_loop srv loads files advisor transcript skills departments
             all_selected_courses self)) = available_departments self"
proof (induction departments arbitrary: all_selected_courses self)
  case Nil
  show ?case by simp
next
  case (Cons department rest)
  show ?case
    using Cons.IH call_keeps_catalog
    by (auto simp: Let_def split: sum.splits prod.splits)
qed

text \<open>
  C9. None of the three stages changes the department catalog: after
  \<open>select_departments\<close>, \<open>select_courses_with_prerequisites\<close> and
  \<open>create_learning_roadmap\<close> the recommender holds the catalog it held before, whatever
  the service and the parser answer and also when the stage raises.
\<close>

theorem catalog_not_mutated:
  "available_departments
     (snd (select_departments srv loads self advisor_description conversation_transcript
             skill_levels)) = available_departments self
   \<and> available_departments
     (snd (select_courses_with_prerequisites srv loads files self selected_departments
             advisor_description conversation_transcript skill_levels))
       = available_departments self
   \<and> available_departments
     (snd (create_learning_roadmap srv loads self courses_with_prereqs student_profile))
       = available_departments self"
proof (intro conjI)
  show "available_departments
     (snd (select_departments srv loads self advisor_description conversation_transcript
             skill_levels)) = available_departments self"
    using call_keeps_catalog
    by (auto simp: select_departments_def split: sum.splits prod.splits)
  show "available_departments
     (snd (select_courses_with_prerequisites srv loads files self selected_departments
             advisor_description conversation_transcript skill_levels))
       = available_departments self"
    by (simp add: select_courses_with_prerequisites_def select_courses_loop_keeps_catalog
        split: sum.splits)
  show "available_departments
     (snd (create_learning_roadmap srv loads self courses_with_prereqs student_profile))
       = available_departments self"
    using call_keeps_catalog
    by (auto simp: create_learning_roadmap_def split: sum.splits prod.splits)
qed

theorem catalog_not_mutated_witness:
  "available_departments
     (snd (select_departments (\<lambda>n p. Reply ''[\"Physics\"]'') json_loads init_recommender
             ''advisor'' ''transcript'' [[''Mathematics'', ''Beginner'']]))
     = available_departments init_recommender
   \<and> api_calls
     (snd (select_departments (\<lambda>n p. Reply ''[\"Physics\"]'') json_loads init_recommender
             ''advisor'' ''transcript'' [[''Mathematics'', ''Beginner'']])) = 1"
proof -
  have "api_calls
     (snd (select_departments (\<lambda>n p. Reply ''[\"Physics\"]'') json_loads init_recommender
             ''advisor'' ''transcript'' [[''Mathematics'', ''Beginner'']])) = 1"
    by code_simp
  then show ?thesis
    using catalog_not_mutated [of "\<lambda>n p. Reply ''[\"Physics\"]''" json_loads init_recommender
        "''advisor''" "''transcript''" "[[''Mathematics'', ''Beginner'']]"]
    by blast
qed

section \<open>Stage 1\<close>

lemma valid_departments_filter:
  "valid_departments catalog (map JStr names) =
     Inr (filter (\<lambda>dept. dept \<in> set (map fst catalog)) names)"
  by (induction names) auto

lemma valid_departments_keys:
  "valid_departments catalog items = Inr valid \<Longrightarrow> set valid \<subseteq> set (map fst catalog)"
  by (induction catalog items arbitrary: valid rule: valid_departments.induct)
    (auto split: sum.splits if_splits simp del: set_map)

lemma departments_from_response_keys:
  "set (departments_from_response loads catalog response) \<subseteq> set (map fst catalog)
   \<and> length (departments_from_response loads catalog response) \<le> 3"
proof -
  have keys: "x \<in> fst ` set catalog"
    if "valid_departments catalog items = Inr valid" "x \<in> set (take 3 valid)" for items valid x
    using valid_departments_keys [OF that(1)] set_take_subset [of 3 valid] that(2) by auto
  show ?thesis
    by (auto simp: departments_from_response_def
        split: option.splits extraction.splits sum.splits dest: keys)
qed

lemma skill_lines_returns:
  "list_all (\<lambda>skill. 2 \<le> length skill) skill_levels \<Longrightarrow> \<exists>ls. skill_lines skill_levels = Inr ls"
proof (induction skill_levels)
  case Nil
  show ?case by simp
next
  case (Cons skill rest)
  then obtain name level others where "skill = name # level # others"
    by (cases skill; cases "tl skill") auto
  with Cons show ?case by auto
qed

text \<open>
  C2. \<open>select_departments\<close> returns a list whenever every skill has its two entries, and
  every list it returns holds only keys of the catalog and at most three of them. (A name
  that is not a key is left out by the filter; it is no error.)
\<close>

theorem select_departments_postcondition:
  "(list_all (\<lambda>skill. 2 \<le> length skill) skill_levels \<longrightarrow>
      (\<exists>departments.
         fst (select_departments srv loads self advisor_description conversation_transcript
                skill_levels) = Inr departments))
   \<and> (fst (select_departments srv loads self advisor_description conversation_transcript
              skill_levels) = Inr departments \<longrightarrow>
        set departments \<subseteq> set (map fst (available_departments self))
        \<and> length departments \<le> 3)"
proof (intro conjI impI)
  assume "list_all (\<lambda>skill. 2 \<le> length skill) skill_levels"
  then obtain ls where "skill_lines skill_levels = Inr ls"
    using skill_lines_returns by blast
  then show "\<exists>departments.
      fst (select_departments srv loads self advisor_description conversation_transcript
             skill_levels) = Inr departments"
    by (simp add: select_departments_def skills_text_def split: prod.splits)
next
  assume returned: "fst (select_departments srv loads self advisor_description
      conversation_transcript skill_levels) = Inr departments"
  then obtain skills where skills: "skills_text skill_levels = Inr skills"
    by (auto simp: select_departments_def split: sum.splits)
  obtain response self' where
    call: "call_claude_api srv
        (DepartmentPrompt advisor_description conversation_transcript skills
           (departments_text (available_departments self))) 3 self = (response, self')"
    by (cases "call_claude_api srv
        (DepartmentPrompt advisor_description conversation_transcript skills
           (departments_text (available_departments self))) 3 self")
  have "departments = departments_from_response loads (available_departments self') response"
    using returned skills call by (simp add: select_departments_def)
  then have "departments = departments_from_response loads (available_departments self) response"
    using call_keeps_catalog [OF call] by simp
  then show "set departments \<subseteq> set (map fst (available_departments self))"
    and "length departments \<le> 3"
    using departments_from_response_keys [of loads "available_departments self" response]
    by simp_all
qed

theorem select_departments_postcondition_witness:
  "fst (select_departments
          (\<lambda>n p. Reply ''Take [\"Physics\", \"Astrology\", \"Mathematics\", \"Biology\", \"Chemistry\"].'')
          json_loads init_recommender ''advisor'' ''transcript'' [[''Mathematics'', ''Beginner'']])
     = Inr [''Physics'', ''Mathematics'', ''Biology'']
   \<and> set [''Physics'', ''Mathematics'', ''Biology'']
       \<subseteq> set (map fst (available_departments init_recommender))
   \<and> length [''Physics'', ''Mathematics'', ''Biology''] \<le> 3"
proof -
  have run: "fst (select_departments
          (\<lambda>n p. Reply ''Take [\"Physics\", \"Astrology\", \"Mathematics\", \"Biology\", \"Chemistry\"].'')
          json_loads init_recommender ''advisor'' ''transcript'' [[''Mathematics'', ''Beginner'']])
     = Inr [''Physics'', ''Mathematics'', ''Biology'']"
    by code_simp
  show ?thesis
    using run select_departments_postcondition
      [where srv = "\<lambda>n p. Reply ''Take [\"Physics\", \"Astrology\", \"Mathematics\", \"Biology\", \"Chemistry\"].''"
         and loads = json_loads and self = init_recommender
         and advisor_description = "''advisor''" and conversation_transcript = "''transcript''"
         and skill_levels = "[[''Mathematics'', ''Beginner'']]"
         and departments = "[''Physics'', ''Mathematics'', ''Biology'']"]
    by blast
qed

text \<open>
  C10. When the text matched in the reply parses to a list of strings,
  \<open>select_departments\<close> returns the first three of those that are keys of the catalog, in
  the order of the reply and as often as they occur there: nothing removes a duplicate.
\<close>

theorem select_departments_no_deduplication:
  assumes "skills_text skill_levels = Inr skills"
    and "call_claude_api srv
           (DepartmentPrompt advisor_description conversation_transcript skills
              (departments_text (available_departments self))) 3 self = (Some response, self')"
    and "response \<noteq> []"
    and "extract_json array_pattern loads response = Parsed (JArr (map JStr names))"
  shows "select_departments srv loads self advisor_description conversation_transcript
           skill_levels =
         (Inr (take 3 (filter (\<lambda>dept. dept \<in> set (map fst (available_departments self))) names)),
          self')"
  using assms call_keeps_catalog [OF assms(2)]
  by (simp add: select_departments_def departments_from_response_def valid_departments_filter)

theorem select_departments_no_deduplication_witness:
  "select_departments
     (\<lambda>n p. Reply ''[\"Physics\", \"Astrology\", \"Physics\", \"Mathematics\", \"Biology\"]'')
     json_loads init_recommender [] [] []
   = (Inr [''Physics'', ''Physics'', ''Mathematics''], init_recommender\<lparr>api_calls := 1\<rparr>)"
proof -
  let ?response = "''[\"Physics\", \"Astrology\", \"Physics\", \"Mathematics\", \"Biology\"]''"
  let ?names = "[''Physics'', ''Astrology'', ''Physics'', ''Mathematics'', ''Biology'']"
  have skills: "skills_text [] = Inr []"
    by (simp add: skills_text_def)
  have call: "call_claude_api (\<lambda>n p. Reply ?response)
      (DepartmentPrompt [] [] [] (departments_text (available_departments init_recommender)))
      3 init_recommender = (Some ?response, init_recommender\<lparr>api_calls := 1\<rparr>)"
    by (simp add: call_claude_api_def call_from_reply init_recommender_fresh)
  have nonempty: "?response \<noteq> []"
    by simp
  have parsed: "extract_json array_pattern json_loads ?response = Parsed (JArr (map JStr ?names))"
    by code_simp
  have kept: "take 3 (filter (\<lambda>dept. dept \<in> set (map fst (available_departments init_recommender)))
      ?names) = [''Physics'', ''Physics'', ''Mathematics'']"
    by code_simp
  show ?thesis
    using select_departments_no_deduplication [OF skills call nonempty parsed]
    by (simp only: kept)
qed

section \<open>Stage 3\<close>

text \<open>
  C4. \<open>create_learning_roadmap\<close> on an empty list of courses returns the dictionary
  \<open>{"error": "No courses provided for roadmap creation"}\<close> and leaves the recommender as
  it was: no call of the completion service is made.
\<close>

theorem create_learning_roadmap_empty:
  "create_learning_roadmap srv loads self [] student_profile =
     (Inr (JObj [(''error'', JStr ''No courses provided for roadmap creation'')]), self)
   \<and> api_calls (snd (create_learning_roadmap srv loads self [] student_profile)) = api_calls self"
  by (simp add: create_learning_roadmap_def error_result_def)

theorem create_learning_roadmap_empty_witness:
  "create_learning_roadmap (\<lambda>n p. Reply ''{}'') json_loads init_recommender [] None =
     (Inr (JObj [(''error'', JStr ''No courses provided for roadmap creation'')]), init_recommender)
   \<and> api_calls (snd (create_learning_roadmap (\<lambda>n p. Reply ''{}'') json_loads init_recommender
        [] None)) = 0"
  using create_learning_roadmap_empty [of "\<lambda>n p. Reply ''{}''" json_loads init_recommender None]
  by (simp add: init_recommender_fresh)

section \<open>Stage 2\<close>

lemma select_courses_loop_accumulates:
  "select_courses_loop srv loads files advisor transcript skills departments acc self =
     (case select_courses_loop srv loads files advisor transcript skills departments [] self of
        (Inl e, self') \<Rightarrow> (Inl e, self')
      | (Inr courses, self') \<Rightarrow> (Inr (acc @ courses), self'))"
proof (induction departments arbitrary: acc self)
  case Nil
  show ?case by simp
next
  case (Cons department rest)
  show ?case
  proof (cases "py_truthy (load_department_courses files loads department)")
    case False
    then show ?thesis
      using Cons.IH [of acc self] by simp
  next
    case True
    show ?thesis
    proof (cases "first_fifty (load_department_courses files loads department)")
      case (Inl e)
      then show ?thesis using True by simp
    next
      case (Inr listed)
      show ?thesis
      proof (cases "course_lines listed")
        case (Inl e)
        then show ?thesis using True Inr by simp
      next
        case ls: (Inr ls)
        obtain response self' where call:
          "call_claude_api srv (CoursePrompt department advisor transcript skills ls) 3 self
             = (response, self')"
          by (cases "call_claude_api srv (CoursePrompt department advisor transcript skills ls)
                3 self")
        let ?new = "courses_from_response loads response"
        note with_acc = Cons.IH [of "acc @ ?new" self']
        note without = Cons.IH [of ?new self']
        have left: "select_courses_loop srv loads files advisor transcript skills
            (department # rest) acc self =
            select_courses_loop srv loads files advisor transcript skills rest (acc @ ?new) self'"
          using True Inr ls call by simp
        have right: "select_courses_loop srv loads files advisor transcript skills
            (department # rest) [] self =
            select_courses_loop srv loads files advisor transcript skills rest ?new self'"
          using True Inr ls call by simp
        show ?thesis
          unfolding left right
          by (subst with_acc, subst without) (simp split: prod.splits sum.splits)
      qed
    qed
  qed
qed

lemma select_courses_loop_append:
  "select_courses_loop srv loads files advisor transcript skills (first @ second) acc self =
     (case select_courses_loop srv loads files advisor transcript skills first acc self of
        (Inl e, self') \<Rightarrow> (Inl e, self')
      | (Inr courses, self') \<Rightarrow>
          select_courses_loop srv loads files advisor transcript skills second courses self')"
proof (induction first arbitrary: acc self)
  case Nil
  show ?case by simp
next
  case (Cons department rest)
  show ?case
    using Cons.IH by (simp add: Let_def split: sum.splits prod.splits)
qed

lemma select_courses_loop_skip:
  "\<not> py_truthy (load_department_courses files loads department) \<Longrightarrow>
   select_courses_loop srv loads files advisor transcript skills (before @ department # after)
     acc self =
   select_courses_loop srv loads files advisor transcript skills (before @ after) acc self"
  by (simp add: select_courses_loop_append split: prod.splits sum.splits)

lemma cannot_be_loaded_empty:
  "cannot_be_loaded files loads department \<Longrightarrow>
   load_department_courses files loads department = JArr []"
  by (auto simp: cannot_be_loaded_def load_department_courses_def
      split: file_state.splits sum.splits)

text \<open>
  C8. \<open>select_courses_with_prerequisites\<close> passes over a department whose course group
  cannot be loaded as if it were not in the list, with no call of the service; the result
  for a list of departments is the result for its first part followed by the result for
  the rest, run on the recommender the first part leaves; and a department that is
  processed contributes the courses parsed from the reply to its prompt. So the result is
  the per-department selections in the order of the list.
\<close>

theorem select_courses_skips_and_concatenates:
  "(cannot_be_loaded files loads department \<longrightarrow>
      select_courses_with_prerequisites srv loads files self (before @ department # after)
        advisor_description conversation_transcript skill_levels =
      select_courses_with_prerequisites srv loads files self (before @ after)
        advisor_description conversation_transcript skill_levels)
   \<and> select_courses_with_prerequisites srv loads files self (first @ second)
        advisor_description conversation_transcript skill_levels =
       (case select_courses_with_prerequisites srv loads files self first
               advisor_description conversation_transcript skill_levels of
          (Inl e, self1) \<Rightarrow> (Inl e, self1)
        | (Inr courses1, self1) \<Rightarrow>
            (case select_courses_with_prerequisites srv loads files self1 second
                    advisor_description conversation_transcript skill_levels of
               (Inl e, self2) \<Rightarrow> (Inl e, self2)
             | (Inr courses2, self2) \<Rightarrow> (Inr (courses1 @ courses2), self2)))
   \<and> (skills_text skill_levels = Inr skills \<longrightarrow>
        py_truthy (load_department_courses files loads department) \<longrightarrow>
        first_fifty (load_department_courses files loads department) = Inr listed \<longrightarrow>
        course_lines listed = Inr ls \<longrightarrow>
        select_courses_with_prerequisites srv loads files self [department]
          advisor_description conversation_transcript skill_levels =
        (case call_claude_api srv
                (CoursePrompt department advisor_description conversation_transcript skills ls)
                3 self of
           (response, self') \<Rightarrow> (Inr (courses_from_response loads response), self')))"
proof (intro conjI impI)
  assume "cannot_be_loaded files loads department"
  then have "\<not> py_truthy (load_department_courses files loads department)"
    by (simp add: cannot_be_loaded_empty)
  then show "select_courses_with_prerequisites srv loads files self (before @ department # after)
        advisor_description conversation_transcript skill_levels =
      select_courses_with_prerequisites srv loads files self (before @ after)
        advisor_description conversation_transcript skill_levels"
    by (simp add: select_courses_with_prerequisites_def select_courses_loop_skip
        split: sum.splits)
next
  show "select_courses_with_prerequisites srv loads files self (first @ second)
        advisor_description conversation_transcript skill_levels =
       (case select_courses_with_prerequisites srv loads files self first
               advisor_description conversation_transcript skill_levels of
          (Inl e, self1) \<Rightarrow> (Inl e, self1)
        | (Inr courses1, self1) \<Rightarrow>
            (case select_courses_with_prerequisites srv loads files self1 second
                    advisor_description conversation_transcript skill_levels of
               (Inl e, self2) \<Rightarrow> (Inl e, self2)
             | (Inr courses2, self2) \<Rightarrow> (Inr (courses1 @ courses2), self2)))"
  proof (cases "skills_text skill_levels")
    case (Inl e)
    then show ?thesis
      by (simp add: select_courses_with_prerequisites_def)
  next
    case (Inr skills)
    obtain result1 self1 where first:
      "select_courses_loop srv loads files advisor_description conversation_transcript skills
         first [] self = (result1, self1)"
      by (cases "select_courses_loop srv loads files advisor_description conversation_transcript
            skills first [] self")
    show ?thesis
    proof (cases result1)
      case (Inl e)
      then show ?thesis
        using first Inr
        by (simp add: select_courses_with_prerequisites_def select_courses_loop_append)
    next
      case courses1: (Inr courses1)
      show ?thesis
        using first Inr courses1
        by (simp add: select_courses_with_prerequisites_def select_courses_loop_append)
          (rule select_courses_loop_accumulates)
    qed
  qed
next
  assume "skills_text skill_levels = Inr skills"
    "py_truthy (load_department_courses files loads department)"
    "first_fifty (load_department_courses files loads department) = Inr listed"
    "course_lines listed = Inr ls"
  then show "select_courses_with_prerequisites srv loads files self [department]
          advisor_description conversation_transcript skill_levels =
        (case call_claude_api srv
                (CoursePrompt department advisor_description conversation_transcript skills ls)
                3 self of
           (response, self') \<Rightarrow> (Inr (courses_from_response loads response), self'))"
    by (simp add: select_courses_with_prerequisites_def split: prod.splits)
qed

theorem select_courses_skips_and_concatenates_witness:
  "select_courses_with_prerequisites (\<lambda>n p. Reply (if n = 0 then ''[{\"course_title\": \"B1\"}]''
                            else ''[{\"course_title\": \"D1\"}, {\"course_title\": \"D2\"}]'')) json_loads (\<lambda>path. if path = ''departments/B.json'' then Contents ''[{\"title\": \"b\"}]''
                 else if path = ''departments/C.json'' then Contents ''not json''
                 else if path = ''departments/D.json'' then Contents ''[{\"title\": \"d\"}]''
                 else Absent)
       init_recommender ([] @ ''A'' # [''B'', ''C'', ''D'']) [] [] []
     = select_courses_with_prerequisites (\<lambda>n p. Reply (if n = 0 then ''[{\"course_title\": \"B1\"}]''
                            else ''[{\"course_title\": \"D1\"}, {\"course_title\": \"D2\"}]'')) json_loads (\<lambda>path. if path = ''departments/B.json'' then Contents ''[{\"title\": \"b\"}]''
                 else if path = ''departments/C.json'' then Contents ''not json''
                 else if path = ''departments/D.json'' then Contents ''[{\"title\": \"d\"}]''
                 else Absent)
       init_recommender ([] @ [''B'', ''C'', ''D'']) [] [] []
   \<and> fst (select_courses_with_prerequisites (\<lambda>n p. Reply (if n = 0 then ''[{\"course_title\": \"B1\"}]''
                            else ''[{\"course_title\": \"D1\"}, {\"course_title\": \"D2\"}]'')) json_loads (\<lambda>path. if path = ''departments/B.json'' then Contents ''[{\"title\": \"b\"}]''
                 else if path = ''departments/C.json'' then Contents ''not json''
                 else if path = ''departments/D.json'' then Contents ''[{\"title\": \"d\"}]''
                 else Absent)
       init_recommender [''A'', ''B'', ''C'', ''D''] [] [] [])
     = Inr [JObj [(''course_title'', JStr ''B1'')],
            JObj [(''course_title'', JStr ''D1'')], JObj [(''course_title'', JStr ''D2'')]]"
proof -
  have missing: "cannot_be_loaded (\<lambda>path. if path = ''departments/B.json'' then Contents ''[{\"title\": \"b\"}]''
                 else if path = ''departments/C.json'' then Contents ''not json''
                 else if path = ''departments/D.json'' then Contents ''[{\"title\": \"d\"}]''
                 else Absent) json_loads ''A''"
    by (simp add: cannot_be_loaded_def)
  have skip: "select_courses_with_prerequisites (\<lambda>n p. Reply (if n = 0 then ''[{\"course_title\": \"B1\"}]''
                            else ''[{\"course_title\": \"D1\"}, {\"course_title\": \"D2\"}]'')) json_loads (\<lambda>path. if path = ''departments/B.json'' then Contents ''[{\"title\": \"b\"}]''
                 else if path = ''departments/C.json'' then Contents ''not json''
                 else if path = ''departments/D.json'' then Contents ''[{\"title\": \"d\"}]''
                 else Absent)
       init_recommender ([] @ ''A'' # [''B'', ''C'', ''D'']) [] [] []
     = select_courses_with_prerequisites (\<lambda>n p. Reply (if n = 0 then ''[{\"course_title\": \"B1\"}]''
                            else ''[{\"course_title\": \"D1\"}, {\"course_title\": \"D2\"}]'')) json_loads (\<lambda>path. if path = ''departments/B.json'' then Contents ''[{\"title\": \"b\"}]''
                 else if path = ''departments/C.json'' then Contents ''not json''
                 else if path = ''departments/D.json'' then Contents ''[{\"title\": \"d\"}]''
                 else Absent)
       init_recommender ([] @ [''B'', ''C'', ''D'']) [] [] []"
    using missing select_courses_skips_and_concatenates
      [where files = "(\<lambda>path. if path = ''departments/B.json'' then Contents ''[{\"title\": \"b\"}]''
                 else if path = ''departments/C.json'' then Contents ''not json''
                 else if path = ''departments/D.json'' then Contents ''[{\"title\": \"d\"}]''
                 else Absent)" and loads = json_loads and department = "''A''"
         and before = "[]" and after = "[''B'', ''C'', ''D'']" and srv = "(\<lambda>n p. Reply (if n = 0 then ''[{\"course_title\": \"B1\"}]''
                            else ''[{\"course_title\": \"D1\"}, {\"course_title\": \"D2\"}]''))"
         and self = init_recommender and advisor_description = "[]"
         and conversation_transcript = "[]" and skill_levels = "[]"]
    by blast
  have run: "fst (select_courses_with_prerequisites (\<lambda>n p. Reply (if n = 0 then ''[{\"course_title\": \"B1\"}]''
                            else ''[{\"course_title\": \"D1\"}, {\"course_title\": \"D2\"}]'')) json_loads (\<lambda>path. if path = ''departments/B.json'' then Contents ''[{\"title\": \"b\"}]''
                 else if path = ''departments/C.json'' then Contents ''not json''
                 else if path = ''departments/D.json'' then Contents ''[{\"title\": \"d\"}]''
                 else Absent)
       init_recommender [''A'', ''B'', ''C'', ''D''] [] [] [])
     = Inr [JObj [(''course_title'', JStr ''B1'')],
            JObj [(''course_title'', JStr ''D1'')], JObj [(''course_title'', JStr ''D2'')]]"
    by code_simp
  show ?thesis
    using skip run by (intro conjI)
qed

section \<open>Extracting the JSON value from a reply\<close>





text \<open>
  The array of courses that the prompt of stage 2 asks for holds an array in every
  course, its \<open>prerequisites\<close>. The lazy pattern cuts such a reply at the first closing
  bracket, the text cut does not parse, and stage 2 gets no course from it.
\<close>

lemma stage2_reply_in_prompt_format_is_lost:
  "json_loads ''[{\"course_title\": \"Calculus\", \"prerequisites\": [\"Algebra\"]}]''
     = Inr (JArr [JObj [(''course_title'', JStr ''Calculus''),
                        (''prerequisites'', JArr [JStr ''Algebra''])]])
   \<and> courses_from_response json_loads
       (Some ''[{\"course_title\": \"Calculus\", \"prerequisites\": [\"Algebra\"]}]'') = []"
  by code_simp

section \<open>Exceptions that reach the caller\<close>

text \<open>
  C5 fails on the code: each stage builds its prompt before its \<open>try\<close>, and what is
  raised there is caught by nothing. A reply of stage 2 whose course has
  \<open>"prerequisites": null\<close> is parsed and returned by stage 2, and stage 3 raises
  \<open>TypeError\<close> on it (\<open>", ".join(None)\<close>); stage 1 raises \<open>IndexError\<close> on a skill with
  one entry.
\<close>

theorem stage_raises_to_caller:
  "fst (select_courses_with_prerequisites
          (\<lambda>n p. Reply ''[{\"course_title\": \"Calculus\", \"prerequisites\": null}]'')
          json_loads (\<lambda>path. Contents ''[{\"title\": \"Calculus\"}]'')
          init_recommender [''Mathematics''] [] [] [])
     = Inr [JObj [(''course_title'', JStr ''Calculus''), (''prerequisites'', JNull)]]
   \<and> fst (create_learning_roadmap (\<lambda>n p. Reply ''{}'') json_loads init_recommender
          [JObj [(''course_title'', JStr ''Calculus''), (''prerequisites'', JNull)]] None)
     = Inl TypeError
   \<and> fst (select_departments (\<lambda>n p. Reply ''[]'') json_loads init_recommender [] []
          [[''Mathematics'']])
     = Inl IndexError"
  by code_simp

end
